theory Spec2Isabelle
  imports Complex_Main
begin

section \<open>JavaScript strings\<close>

text \<open>
  The controller works on JavaScript strings. They are modelled as \<open>string\<close>, so a
  character is a code unit in the range 0..255; the white space of the regular
  expression class \<open>\s\<close> and of \<open>String.prototype.trim\<close> in that range is
  TAB, LF, VT, FF, CR, SPACE and NBSP. The dot of a regular expression matches every
  character but the line terminators LF and CR.
\<close>

definition isSpace :: "char \<Rightarrow> bool" where
  "isSpace c \<longleftrightarrow>
     c = CHR 0x09 \<or> c = CHR 0x0A \<or> c = CHR 0x0B \<or> c = CHR 0x0C \<or> c = CHR 0x0D
     \<or> c = CHR 0x20 \<or> c = CHR 0xA0"

definition isLineTerminator :: "char \<Rightarrow> bool" where
  "isLineTerminator c \<longleftrightarrow> c = CHR 0x0A \<or> c = CHR 0x0D"

definition isDigit :: "char \<Rightarrow> bool" where
  "isDigit c \<longleftrightarrow> c \<in> set ''0123456789''"

text \<open>\<^verbatim>\<open>line.trim()\<close>\<close>

definition trim :: "string \<Rightarrow> string" where
  "trim s = rev (dropWhile isSpace (rev (dropWhile isSpace s)))"

text \<open>
  \<^verbatim>\<open>line.replace(/\s*;.*/g, '')\<close>: scanning from the left, a run of white space
  that is followed by a semicolon is removed together with everything up to the next
  line terminator; the search goes on behind the match.
\<close>

function remove_comments :: "string \<Rightarrow> string" where
  "remove_comments [] = []"
| "remove_comments (c # cs) =
     (case dropWhile isSpace (c # cs) of
        [] \<Rightarrow> c # remove_comments cs
      | d # ds \<Rightarrow>
          if d = CHR '';'' then remove_comments (dropWhile (\<lambda>x. \<not> isLineTerminator x) ds)
          else c # remove_comments cs)"
  by pat_completeness auto
termination
proof (relation "measure length", goal_cases)
  case 1
  show ?case by simp
next
  case (2 c cs)
  show ?case by simp
next
  case (3 c cs d ds)
  have "length (d # ds) \<le> length (c # cs)"
    unfolding 3(1) [symmetric] by (rule length_dropWhile_le)
  moreover have "length (dropWhile (\<lambda>x. \<not> isLineTerminator x) ds) \<le> length ds"
    by (rule length_dropWhile_le)
  ultimately show ?case by simp
next
  case (4 c cs d ds)
  show ?case by simp
qed

text \<open>\<^verbatim>\<open>String(line).replace(/\s+/g, '')\<close>\<close>

definition remove_blanks :: "string \<Rightarrow> string" where
  "remove_blanks line = filter (\<lambda>c. \<not> isSpace c) line"

text \<open>\<^verbatim>\<open>line.replace(/^N[0-9]*/, '')\<close>: a leading \<open>N\<close> and the digits behind it.\<close>

definition strip_line_number :: "string \<Rightarrow> string" where
  "strip_line_number line =
     (case line of
        [] \<Rightarrow> []
      | c # cs \<Rightarrow> if c = CHR ''N'' then dropWhile isDigit cs else line)"

text \<open>The decimal digits of a counter, as \<^verbatim>\<open>'N' + n\<close> prints it.\<close>

definition digit_char :: "nat \<Rightarrow> char" where
  "digit_char d = ''0123456789'' ! d"

fun string_of_nat :: "nat \<Rightarrow> string" where
  "string_of_nat n =
     (if n < 10 then [digit_char n] else string_of_nat (n div 10) @ [digit_char (n mod 10)])"

declare string_of_nat.simps [simp del]

text \<open>
  \<^verbatim>\<open>text.split(/\r?\n/)\<close>: the pieces between line feeds, a carriage return right
  before a line feed belonging to the separator.
\<close>

fun split_lines :: "string \<Rightarrow> string list" where
  "split_lines [] = [[]]"
| "split_lines [c] = (if c = CHR 0x0A then [[], []] else [[c]])"
| "split_lines (c # d # cs) =
     (if c = CHR 0x0D \<and> d = CHR 0x0A then [] # split_lines cs
      else if c = CHR 0x0A then [] # split_lines (d # cs)
      else (case split_lines (d # cs) of
              [] \<Rightarrow> [[c]]
            | l # ls \<Rightarrow> (c # l) # ls))"

text \<open>\<^verbatim>\<open>lines.join('\n')\<close>\<close>

fun join_lines :: "string list \<Rightarrow> string" where
  "join_lines [] = []"
| "join_lines [l] = l"
| "join_lines (l # m # ls) = l @ [CHR 0x0A] @ join_lines (m # ls)"

section \<open>Data model\<close>

datatype workflow_state = WORKFLOW_STATE_IDLE | WORKFLOW_STATE_RUNNING | WORKFLOW_STATE_PAUSED

datatype sender_status = SENDER_STATUS_NONE | SENDER_STATUS_NEXT | SENDER_STATUS_ACK

text \<open>A hold reason is an object \<^verbatim>\<open>{data: ...}\<close> or \<^verbatim>\<open>{err: msg}\<close>.\<close>

datatype reason = ReasonData string | ReasonErr "string option"

text \<open>
  Who handed a chunk to \<^verbatim>\<open>connection.write\<close>: the controller's own
  \<^verbatim>\<open>write\<close> method (\<^verbatim>\<open>WRITE_SOURCE_CLIENT\<close>), the Feeder's data handler
  (\<^verbatim>\<open>WRITE_SOURCE_FEEDER\<close>) or the Sender's data handler.
\<close>

datatype writer = WRITE_SOURCE_CLIENT | WRITE_SOURCE_FEEDER | WRITE_SOURCE_SENDER

text \<open>The values of the fields of a decoded \<open>r\<close> frame.\<close>

datatype json = JNull | JBool bool | JNum int | JStr string

datatype workflow_transition = WorkflowStart | WorkflowStop | WorkflowPause | WorkflowResume

text \<open>What is broadcast with an event name through \<^verbatim>\<open>emit\<close>.\<close>

datatype payload =
    NoPayload
  | StatePayload workflow_state
  | TextPayload string
  | ErrPayload int "string option"
  | LineErrPayload int "string option" nat string

text \<open>
  The calls the controller makes into its collaborators, its broadcasts and its
  assignments to \<^verbatim>\<open>senderStatus\<close>, in the order in which they happen.
\<close>

datatype call =
    SetSenderStatus sender_status
  | SenderAck
  | SenderNext
  | SenderHold "reason option"
  | SenderUnhold
  | SenderRewind
  | SenderLoad
  | SenderUnload
  | FeederNext
  | FeederHold reason
  | FeederUnhold
  | FeederReset
  | FeederFeed "string list"
  | Workflow workflow_transition "reason option"
  | Emit string payload
  | Trigger string
  | TaskRun string
  | Writeln string
  | LogError string

text \<open>
  The parts the controller takes from other modules are parameters of the model: the
  constants of \<^verbatim>\<open>./constants\<close> (the water marks of the planner buffer, the limit
  of the serial buffer, the table of status codes), the expression evaluators, the g-code
  tokenizer, the configuration store (\<open>ignoreErrors\<close>, \<open>macros\<close>, the mapping of
  the event triggers), the helper \<^verbatim>\<open>ensurePositiveNumber\<close>, the reading of a watched
  file and the number formatting of the language. \<open>workflow_enabled\<close> says in which
  states the Workflow takes a transition (see below).
\<close>

record env =
  LOW_WATER_MARK :: nat
  HIGH_WATER_MARK :: nat
  SERIAL_BUFFER_LIMIT :: nat
  STATUS_CODES :: "int \<Rightarrow> string option"
  translateExpression :: "nat \<Rightarrow> string \<Rightarrow> string"
  evaluateAssignmentExpression :: "string \<Rightarrow> nat \<Rightarrow> nat"
  parseLine_words :: "string \<Rightarrow> string list"
  ignoreErrors :: bool
  workflow_enabled :: "workflow_transition \<Rightarrow> workflow_state \<Rightarrow> bool"
  triggers :: "string \<Rightarrow> (bool \<times> string) option"
  numberToString :: "real \<Rightarrow> string"
  ensurePositiveNumber :: "real \<Rightarrow> real"
  macros :: "string \<Rightarrow> (string \<times> string) option"
  readFile :: "string \<Rightarrow> string option"

text \<open>
  The controller instance with the state of the Sender (\<open>s_\<close>), of the Feeder
  (\<open>f_\<close>) and what it reads from the Runner (\<open>runner_\<close>). \<open>ctx\<close> stands for
  the expression context (shared variables and the populated positions), \<open>clock\<close>
  for the current time. \<open>written\<close> lists the chunks handed to
  \<^verbatim>\<open>connection.write\<close>, \<open>calls\<close> the calls and broadcasts made so far.
\<close>

record controller =
  workflow :: workflow_state
  blocked :: bool
  senderStatus :: sender_status
  ready :: bool
  isOpen :: bool
  sr :: "(string \<times> bool) list"
  senderFinishTime :: nat
  settings_fb :: real
  state_qr :: "nat option"
  state_mt :: real
  s_lines :: "string list"
  s_total :: nat
  s_sent :: nat
  s_received :: nat
  s_hold :: bool
  s_holdReason :: "reason option"
  f_queue :: "string list"
  f_hold :: bool
  f_holdReason :: "reason option"
  f_pending :: bool
  runner_plannerBufferPoolSize :: nat
  runner_isAlarm :: bool
  runner_mfo :: real
  runner_sso :: real
  ctx :: nat
  clock :: nat
  written :: "(writer \<times> string) list"
  calls :: "call list"

definition WAIT :: string where
  "WAIT = ''%wait''"

definition log_call :: "call \<Rightarrow> controller \<Rightarrow> controller" where
  "log_call c s = s\<lparr>calls := calls s @ [c]\<rparr>"

definition emit :: "string \<Rightarrow> payload \<Rightarrow> controller \<Rightarrow> controller" where
  "emit name p s = log_call (Emit name p) s"

definition connection_write :: "writer \<Rightarrow> string \<Rightarrow> controller \<Rightarrow> controller" where
  "connection_write w chunk s = s\<lparr>written := written s @ [(w, chunk)]\<rparr>"

definition set_senderStatus :: "sender_status \<Rightarrow> controller \<Rightarrow> controller" where
  "set_senderStatus v s = log_call (SetSenderStatus v) (s\<lparr>senderStatus := v\<rparr>)"

text \<open>\<^verbatim>\<open>write(data)\<close> and \<^verbatim>\<open>writeln(data)\<close>\<close>

definition controller_write :: "string \<Rightarrow> controller \<Rightarrow> controller" where
  "controller_write chunk s =
     (if \<not> isOpen s then log_call (LogError ''Unable to write data to the connection'') s
      else connection_write WRITE_SOURCE_CLIENT chunk
             (emit ''connection:write'' (TextPayload chunk) s))"

definition controller_writeln :: "string \<Rightarrow> controller \<Rightarrow> controller" where
  "controller_writeln chunk s = controller_write (chunk @ [CHR 0x0A]) (log_call (Writeln chunk) s)"

section \<open>Sender, Feeder and Workflow\<close>

subsection \<open>Sender\<close>

text \<open>
  Modelled from the spec: the Sender class (\<^verbatim>\<open>lib/Sender\<close>) is missing.
  \<^item> \<open>hold(reason)\<close> / \<open>unhold()\<close> idempotent.
  \<^item> \<open>rewind()\<close>: set \<open>sent = received = 0\<close>, clear hold.
  \<^item> \<open>ack()\<close>: \<open>received += 1\<close>; emit \<open>end(now)\<close> iff \<open>received == total\<close>.
    Within the Sender \<open>received\<close> never overtakes \<open>sent\<close>: an \<open>ack()\<close> that
    comes while \<open>received \<ge> sent\<close> is refused and changes nothing.
  \<^item> \<open>load(name, content, context)\<close>: tokenize content into lines (LF or CRLF), reset
    counters; rejects empty content. (The final \<open>%wait\<close> line is appended by the
    controller's command, below.)
  \<^item> \<open>unload()\<close>: clear program and counters.
  \<^item> \<open>next()\<close> comes after the data filter and the data handler it calls.
  The spec does not say when the Sender emits \<open>start\<close>, so the controller's
  handler of that event, which only clears \<open>senderFinishTime\<close>, is never run here.
\<close>

definition sender_hold :: "reason option \<Rightarrow> controller \<Rightarrow> controller" where
  "sender_hold r s =
     (let s1 = log_call (SenderHold r) s
      in if s_hold s1 then s1 else s1\<lparr>s_hold := True, s_holdReason := r\<rparr>)"

definition sender_unhold :: "controller \<Rightarrow> controller" where
  "sender_unhold s =
     (let s1 = log_call SenderUnhold s
      in if \<not> s_hold s1 then s1 else s1\<lparr>s_hold := False, s_holdReason := None\<rparr>)"

definition sender_rewind :: "controller \<Rightarrow> controller" where
  "sender_rewind s =
     (log_call SenderRewind s)\<lparr>s_sent := 0, s_received := 0, s_hold := False, s_holdReason := None\<rparr>"

text \<open>\<^verbatim>\<open>sender.on('end', (finishTime) => ...)\<close>\<close>

definition on_sender_end :: "nat \<Rightarrow> controller \<Rightarrow> controller" where
  "on_sender_end finishTime s = s\<lparr>senderFinishTime := finishTime\<rparr>"

definition sender_ack :: "controller \<Rightarrow> controller" where
  "sender_ack s =
     (let s0 = log_call SenderAck s
      in if s_received s0 \<ge> s_sent s0 then s0
         else (let s1 = s0\<lparr>s_received := s_received s0 + 1\<rparr>
               in if s_received s1 = s_total s1 then on_sender_end (clock s1) s1 else s1))"

definition sender_load :: "string \<Rightarrow> controller \<Rightarrow> bool \<times> controller" where
  "sender_load content s =
     (let s1 = log_call SenderLoad s
      in if content = [] then (False, s1)
         else (True, s1\<lparr>s_lines := split_lines content,
                         s_total := length (split_lines content),
                         s_sent := 0, s_received := 0\<rparr>))"

definition sender_unload :: "controller \<Rightarrow> controller" where
  "sender_unload s =
     (log_call SenderUnload s)\<lparr>s_lines := [], s_total := 0, s_sent := 0, s_received := 0\<rparr>"

subsection \<open>Workflow: pause\<close>

text \<open>\<^verbatim>\<open>workflow.on('pause', (...args) => ...)\<close>\<close>

definition on_workflow_pause :: "reason option \<Rightarrow> controller \<Rightarrow> controller" where
  "on_workflow_pause r s =
     sender_hold r (emit ''workflow:state'' (StatePayload (workflow s)) s)"

text \<open>
  Modelled from the spec: the Workflow class (\<^verbatim>\<open>lib/Workflow\<close>) is missing. It is a
  machine of the three states idle, running and paused with the transitions start, stop,
  pause and resume; a transition sets the state it leads to and fires the handler the
  controller registered for it, with the arguments of the call. The spec does not say in
  which states a transition is taken: the parameter \<open>workflow_enabled\<close> decides it.
\<close>

definition workflow_pause :: "env \<Rightarrow> reason option \<Rightarrow> controller \<Rightarrow> controller" where
  "workflow_pause e r s =
     (let s1 = log_call (Workflow WorkflowPause r) s
      in if workflow_enabled e WorkflowPause (workflow s1)
         then on_workflow_pause r (s1\<lparr>workflow := WORKFLOW_STATE_PAUSED\<rparr>)
         else s1)"

subsection \<open>The Sender's pipeline\<close>

text \<open>
  \<^verbatim>\<open>_.intersection(words, ['M0', 'M1'])[0]\<close>: the first word that is \<open>M0\<close> or
  \<open>M1\<close>.
\<close>

definition programMode :: "string list \<Rightarrow> string option" where
  "programMode words = List.find (\<lambda>w. w = ''M0'' \<or> w = ''M1'') words"

text \<open>The \<^verbatim>\<open>dataFilter\<close> option of the Sender: the line to send and the new state.\<close>

definition sender_dataFilter :: "env \<Rightarrow> string \<Rightarrow> controller \<Rightarrow> string \<times> controller" where
  "sender_dataFilter e line0 s =
     (let line = trim (remove_comments line0)
      in if line \<noteq> [] \<and> hd line = CHR ''%'' then
           (if line = WAIT then (''G4 P0.5'', sender_hold (Some (ReasonData WAIT)) s)
            else ([], s\<lparr>ctx := evaluateAssignmentExpression e (tl line) (ctx s)\<rparr>))
         else
           (let line1 = translateExpression e (ctx s) line;
                words = parseLine_words e line1;
                s1 = (if programMode words = Some ''M0''
                        then workflow_pause e (Some (ReasonData ''M0'')) s
                      else if programMode words = Some ''M1''
                        then workflow_pause e (Some (ReasonData ''M1'')) s
                      else s);
                s2 = (if ''M6'' \<in> set words
                        then workflow_pause e (Some (ReasonData ''M6'')) s1
                      else s1)
            in (line1, s2)))"

text \<open>\<^verbatim>\<open>sender.on('data', (line = '', context = {}) => ...)\<close>\<close>

definition sender_on_data :: "string \<Rightarrow> controller \<Rightarrow> controller" where
  "sender_on_data line s =
     (if \<not> isOpen s then log_call (LogError ''Unable to write data to the connection'') s
      else if workflow s = WORKFLOW_STATE_IDLE
        then log_call (LogError ''Unexpected workflow state'') s
      else
        (let line1 = remove_blanks line
         in if length line1 = 0 then s
            else
              (let n = s_sent s;
                   line2 = strip_line_number line1;
                   line3 = ''N'' @ string_of_nat n @ line2
               in connection_write WRITE_SOURCE_SENDER (line3 @ [CHR 0x0A]) s)))"

text \<open>
  Modelled from the spec: \<open>next()\<close>: if held or \<open>sent == total\<close>, no-op; else take
  \<open>lines[sent]\<close>, pass through expression stage, emit \<open>data\<close>, \<open>sent += 1\<close>.
\<close>

definition sender_next :: "env \<Rightarrow> controller \<Rightarrow> controller" where
  "sender_next e s =
     (let s0 = log_call SenderNext s
      in if s_hold s0 \<or> s_sent s0 = s_total s0 then s0
         else
           (case sender_dataFilter e
                   (if s_sent s0 < length (s_lines s0) then s_lines s0 ! s_sent s0 else []) s0 of
              (line, s1) \<Rightarrow>
                (let s2 = sender_on_data line s1
                 in s2\<lparr>s_sent := s_sent s2 + 1\<rparr>)))"

subsection \<open>Feeder\<close>

text \<open>
  Modelled from the spec: the Feeder class (\<^verbatim>\<open>lib/Feeder\<close>) is missing. It is an
  unbounded FIFO: \<open>feed(lines, context)\<close> appends; \<open>next()\<close> pulls one and emits
  \<open>data(line, context)\<close> unless held, after the expression stage;
  \<open>hold(reason)\<close> and \<open>unhold()\<close> are idempotent; \<open>reset()\<close> drains the queue
  and clears hold. The spec lists a pending flag without its updates: here it is set
  when a line is pulled, and cleared by \<open>reset()\<close> and by a \<open>next()\<close> that finds
  the queue empty.
\<close>

definition feeder_hold :: "reason \<Rightarrow> controller \<Rightarrow> controller" where
  "feeder_hold r s =
     (let s1 = log_call (FeederHold r) s
      in if f_hold s1 then s1 else s1\<lparr>f_hold := True, f_holdReason := Some r\<rparr>)"

definition feeder_unhold :: "controller \<Rightarrow> controller" where
  "feeder_unhold s =
     (let s1 = log_call FeederUnhold s
      in if \<not> f_hold s1 then s1 else s1\<lparr>f_hold := False, f_holdReason := None\<rparr>)"

definition feeder_reset :: "controller \<Rightarrow> controller" where
  "feeder_reset s =
     (log_call FeederReset s)\<lparr>f_queue := [], f_hold := False, f_holdReason := None,
                              f_pending := False\<rparr>"

definition feeder_feed :: "string list \<Rightarrow> controller \<Rightarrow> controller" where
  "feeder_feed ls s = (log_call (FeederFeed ls) s)\<lparr>f_queue := f_queue s @ ls\<rparr>"

text \<open>The \<^verbatim>\<open>dataFilter\<close> option of the Feeder.\<close>

definition feeder_dataFilter :: "env \<Rightarrow> string \<Rightarrow> controller \<Rightarrow> string \<times> controller" where
  "feeder_dataFilter e line0 s =
     (let line = trim (remove_comments line0)
      in if line \<noteq> [] \<and> hd line = CHR ''%'' then
           (if line = WAIT then (''G4 P0.5'', feeder_hold (ReasonData WAIT) s)
            else ([], s\<lparr>ctx := evaluateAssignmentExpression e (tl line) (ctx s)\<rparr>))
         else
           (let line1 = translateExpression e (ctx s) line;
                words = parseLine_words e line1;
                s1 = (if programMode words = Some ''M0'' then feeder_hold (ReasonData ''M0'') s
                      else if programMode words = Some ''M1'' then feeder_hold (ReasonData ''M1'') s
                      else s);
                s2 = (if ''M6'' \<in> set words then feeder_hold (ReasonData ''M6'') s1 else s1)
            in (line1, s2)))"

text \<open>\<^verbatim>\<open>feeder.on('data', (line = '', context = {}) => ...)\<close>\<close>

definition feeder_on_data :: "string \<Rightarrow> controller \<Rightarrow> controller" where
  "feeder_on_data line s =
     (if \<not> isOpen s then log_call (LogError ''Unable to write data to the connection'') s
      else if runner_isAlarm s then feeder_reset s
      else
        (let line1 = trim line
         in if length line1 = 0 then s
            else connection_write WRITE_SOURCE_FEEDER (line1 @ [CHR 0x0A])
                   (emit ''connection:write'' (TextPayload (line1 @ [CHR 0x0A])) s)))"

definition feeder_next :: "env \<Rightarrow> controller \<Rightarrow> controller" where
  "feeder_next e s =
     (let s0 = log_call FeederNext s
      in if f_hold s0 then s0
         else
           (case f_queue s0 of
              [] \<Rightarrow> s0\<lparr>f_pending := False\<rparr>
            | l # q \<Rightarrow>
                (case feeder_dataFilter e l (s0\<lparr>f_queue := q, f_pending := True\<rparr>) of
                   (line, s1) \<Rightarrow> feeder_on_data line s1)))"

text \<open>\<^verbatim>\<open>command('gcode', commands, context)\<close>\<close>

definition command_gcode :: "env \<Rightarrow> string list \<Rightarrow> controller \<Rightarrow> controller" where
  "command_gcode e commands s =
     (let lines = filter (\<lambda>line. length (trim line) > 0) (split_lines (join_lines commands));
          s1 = feeder_feed lines s
      in if \<not> f_pending s1 then feeder_next e s1 else s1)"

text \<open>
  Modelled from the spec: the EventTrigger class (\<^verbatim>\<open>lib/EventTrigger\<close>) is missing.
  \<open>trigger(eventName)\<close> looks up a configured mapping (the parameter \<open>triggers\<close>:
  whether the entry is typed \<open>system\<close>, and its command string) and runs the
  callback the controller gave at construction: for an entry typed \<open>system\<close> the
  task runner gets the command string, otherwise the string goes to the command
  \<open>gcode\<close>.
\<close>

definition event_trigger :: "env \<Rightarrow> string \<Rightarrow> controller \<Rightarrow> controller" where
  "event_trigger e name s =
     (let s1 = log_call (Trigger name) s
      in case triggers e name of
           None \<Rightarrow> s1
         | Some (system, commands) \<Rightarrow>
             if system then log_call (TaskRun commands) s1 else command_gcode e [commands] s1)"

subsection \<open>Workflow: start, stop, resume\<close>

text \<open>\<^verbatim>\<open>workflow.on('start', ...)\<close> and \<^verbatim>\<open>workflow.on('stop', ...)\<close>\<close>

definition on_workflow_start :: "controller \<Rightarrow> controller" where
  "on_workflow_start s =
     sender_rewind
       (set_senderStatus SENDER_STATUS_NONE
          ((emit ''workflow:state'' (StatePayload (workflow s)) s)\<lparr>blocked := False\<rparr>))"

definition on_workflow_stop :: "controller \<Rightarrow> controller" where
  "on_workflow_stop s =
     sender_rewind
       (set_senderStatus SENDER_STATUS_NONE
          ((emit ''workflow:state'' (StatePayload (workflow s)) s)\<lparr>blocked := False\<rparr>))"

text \<open>\<^verbatim>\<open>workflow.on('resume', ...)\<close>\<close>

definition on_workflow_resume :: "env \<Rightarrow> controller \<Rightarrow> controller" where
  "on_workflow_resume e s =
     sender_next e
       (sender_unhold
          (feeder_reset (emit ''workflow:state'' (StatePayload (workflow s)) s)))"

text \<open>
  Modelled from the spec: the transitions start, stop and resume of the missing Workflow
  class, as \<open>workflow_pause\<close> above.
\<close>

definition workflow_start :: "env \<Rightarrow> controller \<Rightarrow> controller" where
  "workflow_start e s =
     (let s1 = log_call (Workflow WorkflowStart None) s
      in if workflow_enabled e WorkflowStart (workflow s1)
         then on_workflow_start (s1\<lparr>workflow := WORKFLOW_STATE_RUNNING\<rparr>)
         else s1)"

definition workflow_stop :: "env \<Rightarrow> controller \<Rightarrow> controller" where
  "workflow_stop e s =
     (let s1 = log_call (Workflow WorkflowStop None) s
      in if workflow_enabled e WorkflowStop (workflow s1)
         then on_workflow_stop (s1\<lparr>workflow := WORKFLOW_STATE_IDLE\<rparr>)
         else s1)"

definition workflow_resume :: "env \<Rightarrow> controller \<Rightarrow> controller" where
  "workflow_resume e s =
     (let s1 = log_call (Workflow WorkflowResume None) s
      in if workflow_enabled e WorkflowResume (workflow s1)
         then on_workflow_resume e (s1\<lparr>workflow := WORKFLOW_STATE_RUNNING\<rparr>)
         else s1)"

section \<open>The handlers of the Runner's events\<close>

text \<open>
  \<^verbatim>\<open>this.sr.spe = false\<close>: an assignment to a property of the status report mask,
  which keeps the place of a key that is there.
\<close>

fun set_flag :: "string \<Rightarrow> bool \<Rightarrow> (string \<times> bool) list \<Rightarrow> (string \<times> bool) list" where
  "set_flag k v [] = [(k, v)]"
| "set_flag k v ((k', b) # m) = (if k' = k then (k, v) # m else (k', b) # set_flag k v m)"

text \<open>\<^verbatim>\<open>r && r.spe === null\<close>, for a frame that may be missing.\<close>

definition is_null :: "(string \<Rightarrow> json option) option \<Rightarrow> string \<Rightarrow> bool" where
  "is_null r k = (case r of None \<Rightarrow> False | Some obj \<Rightarrow> obj k = Some JNull)"

definition clear_if_null ::
  "(string \<Rightarrow> json option) option \<Rightarrow> string \<Rightarrow> controller \<Rightarrow> controller" where
  "clear_if_null r k s = (if is_null r k then s\<lparr>sr := set_flag k False (sr s)\<rparr> else s)"

text \<open>The six checks for an unrecognized command at the head of the handler of \<open>r\<close>.\<close>

definition probed :: "(string \<Rightarrow> json option) option \<Rightarrow> controller \<Rightarrow> controller" where
  "probed r s =
     clear_if_null r ''cof'' (clear_if_null r ''com'' (clear_if_null r ''sps''
       (clear_if_null r ''spc'' (clear_if_null r ''spd'' (clear_if_null r ''spe'' s)))))"

text \<open>\<^verbatim>\<open>runner.on('r', (r) => ...)\<close>\<close>

definition on_r :: "env \<Rightarrow> (string \<Rightarrow> json option) option \<Rightarrow> controller \<Rightarrow> controller" where
  "on_r e r s0 =
     (let s = probed r s0;
          sent = s_sent s;
          received = s_received s
      in if workflow s = WORKFLOW_STATE_RUNNING then
           (let s1 = set_senderStatus SENDER_STATUS_ACK s
            in if \<not> blocked s1
               then set_senderStatus SENDER_STATUS_NEXT (sender_next e (sender_ack s1))
               else s1)
         else if workflow s = WORKFLOW_STATE_PAUSED \<and> received < sent then
           set_senderStatus SENDER_STATUS_NEXT
             (sender_next e (sender_ack (set_senderStatus SENDER_STATUS_ACK s)))
         else feeder_next e s)"

text \<open>\<^verbatim>\<open>runner.on('qr', ({ qr }) => ...)\<close>\<close>

definition on_qr :: "env \<Rightarrow> nat \<Rightarrow> controller \<Rightarrow> controller" where
  "on_qr e qr s0 =
     (let s = s0\<lparr>state_qr := Some qr\<rparr>
      in if qr \<le> LOW_WATER_MARK e then s\<lparr>blocked := True\<rparr>
         else
           (let s1 = (if qr \<ge> HIGH_WATER_MARK e then s\<lparr>blocked := False\<rparr> else s)
            in if workflow s1 = WORKFLOW_STATE_RUNNING then
                 (if senderStatus s1 = SENDER_STATUS_NEXT then
                    (if s_hold s1 \<and> s_received s1 \<ge> s_sent s1
                        \<and> qr \<ge> runner_plannerBufferPoolSize s1
                     then set_senderStatus SENDER_STATUS_NEXT (sender_next e (sender_unhold s1))
                     else s1)
                  else if senderStatus s1 = SENDER_STATUS_ACK then
                    set_senderStatus SENDER_STATUS_NEXT (sender_next e (sender_ack s1))
                  else s1)
               else if workflow s1 = WORKFLOW_STATE_PAUSED \<and> senderStatus s1 = SENDER_STATUS_ACK then
                 set_senderStatus SENDER_STATUS_NEXT (sender_next e (sender_ack s1))
               else
                 (let s2 = (if f_hold s1 then
                              (if f_holdReason s1 = Some (ReasonData WAIT)
                                  \<and> qr \<ge> runner_plannerBufferPoolSize s1
                               then feeder_unhold s1 else s1)
                            else s1)
                  in feeder_next e s2)))"

text \<open>
  \<^verbatim>\<open>runner.on('f', (f) => ...)\<close>; \<^verbatim>\<open>f[1] || 0\<close> is 0 for a footer with fewer
  than two elements.
\<close>

definition on_f :: "env \<Rightarrow> int list \<Rightarrow> controller \<Rightarrow> controller" where
  "on_f e f s =
     (let statusCode = (if 1 < length f then f ! 1 else 0)
      in if statusCode \<noteq> 0 then
           (let code = statusCode;
                msg = STATUS_CODES e code
            in if workflow s = WORKFLOW_STATE_RUNNING then
                 (let received = s_received s;
                      line = (if 0 < received \<and> received - 1 < length (s_lines s)
                              then s_lines s ! (received - 1) else []);
                      s1 = emit ''connection:read'' (TextPayload (''> '' @ line)) s;
                      s2 = emit ''connection:read'' (LineErrPayload code msg received (trim line)) s1;
                      s3 = log_call (LogError ''Error:'') s2
                  in if \<not> ignoreErrors e then workflow_pause e (Some (ReasonErr msg)) s3 else s3)
               else
                 (let s1 = emit ''connection:read'' (ErrPayload code msg) s
                  in if workflow s1 = WORKFLOW_STATE_IDLE then feeder_next e s1 else s1))
         else if workflow s = WORKFLOW_STATE_IDLE then feeder_next e s
         else s)"

text \<open>\<^verbatim>\<open>runner.on('raw', (res) => ...)\<close>\<close>

definition on_raw :: "string \<Rightarrow> controller \<Rightarrow> controller" where
  "on_raw raw s =
     (if workflow s = WORKFLOW_STATE_IDLE then emit ''connection:read'' (TextPayload raw) s else s)"

section \<open>Commands\<close>

definition command_sender_load :: "env \<Rightarrow> string \<Rightarrow> string \<Rightarrow> controller \<Rightarrow> controller" where
  "command_sender_load e name content s =
     (let dwell = ''%wait ; Wait for the planner to empty''
      in case sender_load (content @ [CHR 0x0A] @ dwell) s of
           (ok, s1) \<Rightarrow>
             if \<not> ok then s1
             else workflow_stop e
                    (event_trigger e ''sender:load'' (emit ''sender:load'' (TextPayload name) s1)))"

definition command_sender_unload :: "env \<Rightarrow> controller \<Rightarrow> controller" where
  "command_sender_unload e s =
     event_trigger e ''sender:unload''
       (emit ''sender:unload'' NoPayload (sender_unload (workflow_stop e s)))"

definition command_sender_start :: "env \<Rightarrow> controller \<Rightarrow> controller" where
  "command_sender_start e s =
     sender_next e (feeder_reset (workflow_start e (event_trigger e ''sender:start'' s)))"

definition command_sender_stop :: "env \<Rightarrow> bool \<Rightarrow> controller \<Rightarrow> controller" where
  \<open>command_sender_stop e force s =
     (let s1 = workflow_stop e (event_trigger e ''sender:stop'' s);
          s2 = (if force then
                  (let firmwareBuild = settings_fb s1
                   in if firmwareBuild \<ge> 101 then controller_writeln [CHR 0x04] s1
                      else if firmwareBuild \<ge> 100 then
                        controller_writeln ''M30'' (controller_writeln [CHR 0x04] s1)
                      else
                        controller_writeln ''M30''
                          (controller_writeln ''%'' (controller_writeln ''!'' s1)))
                else s1)
      in controller_writeln ''{"qr":""}'' s2)\<close>

definition command_sender_pause :: "env \<Rightarrow> controller \<Rightarrow> controller" where
  \<open>command_sender_pause e s =
     controller_writeln ''{"qr":""}''
       (controller_writeln ''!'' (workflow_pause e None (event_trigger e ''sender:pause'' s)))\<close>

definition command_sender_resume :: "env \<Rightarrow> controller \<Rightarrow> controller" where
  \<open>command_sender_resume e s =
     controller_writeln ''{"qr":""}''
       (workflow_resume e (controller_writeln ''~'' (event_trigger e ''sender:resume'' s)))\<close>

definition command_feeder_start :: "env \<Rightarrow> controller \<Rightarrow> controller" where
  \<open>command_feeder_start e s =
     (if workflow s = WORKFLOW_STATE_RUNNING then s
      else feeder_next e
             (feeder_unhold (controller_writeln ''{"qr":""}'' (controller_writeln ''~'' s))))\<close>

definition command_feeder_stop :: "controller \<Rightarrow> controller" where
  "command_feeder_stop s = feeder_reset s"

definition command_feedhold :: "env \<Rightarrow> controller \<Rightarrow> controller" where
  \<open>command_feedhold e s =
     controller_writeln ''{"qr":""}'' (controller_writeln ''!'' (event_trigger e ''feedhold'' s))\<close>

definition command_cyclestart :: "env \<Rightarrow> controller \<Rightarrow> controller" where
  \<open>command_cyclestart e s =
     controller_writeln ''{"qr":""}'' (controller_writeln ''~'' (event_trigger e ''cyclestart'' s))\<close>

definition command_homing :: "env \<Rightarrow> controller \<Rightarrow> controller" where
  "command_homing e s = controller_writeln ''G28.2 X0 Y0 Z0'' (event_trigger e ''homing'' s)"

definition command_sleep :: "env \<Rightarrow> controller \<Rightarrow> controller" where
  "command_sleep e s = event_trigger e ''sleep'' s"

definition command_unlock :: "controller \<Rightarrow> controller" where
  "command_unlock s = controller_writeln ''{clear:null}'' s"

definition command_reset :: "env \<Rightarrow> controller \<Rightarrow> controller" where
  "command_reset e s = controller_write [CHR 0x18] (feeder_reset (workflow_stop e s))"

text \<open>
  The new override of \<^verbatim>\<open>override:feed\<close> and of \<^verbatim>\<open>override:spindle\<close>, from the
  percentage asked for and the override the Runner reports. Numbers are modelled as
  reals, without the rounding of floating point and without NaN.
\<close>

definition override_feed :: "real \<Rightarrow> real \<Rightarrow> real" where
  "override_feed value mfo =
     (if value = 0 then 1
      else if (mfo * 100 + value) > 200 then 2
      else if (mfo * 100 + value) < 5 then 0.05
      else (mfo * 100 + value) / 100)"

definition override_spindle :: "real \<Rightarrow> real \<Rightarrow> real" where
  "override_spindle value sso =
     (if value = 0 then 1
      else if (sso * 100 + value) > 200 then 2
      else if (sso * 100 + value) < 5 then 0.05
      else (sso * 100 + value) / 100)"

definition command_override_feed :: "env \<Rightarrow> real \<Rightarrow> controller \<Rightarrow> controller" where
  "command_override_feed e value s =
     command_gcode e [''{mfo:'' @ numberToString e (override_feed value (runner_mfo s)) @ ''}''] s"

definition command_override_spindle :: "env \<Rightarrow> real \<Rightarrow> controller \<Rightarrow> controller" where
  "command_override_spindle e value s =
     command_gcode e [''{sso:'' @ numberToString e (override_spindle value (runner_sso s)) @ ''}''] s"

definition command_override_rapid :: "env \<Rightarrow> real \<Rightarrow> controller \<Rightarrow> controller" where
  "command_override_rapid e value s =
     (if value = 0 \<or> value = 100 then command_gcode e [''{mto:1}''] s
      else if value = 50 then command_gcode e [''{mto:0.5}''] s
      else if value = 25 then command_gcode e [''{mto:0.25}''] s
      else s)"

definition command_motor_disable :: "env \<Rightarrow> controller \<Rightarrow> controller" where
  "command_motor_disable e s = command_gcode e [''{pwr:n}''] (command_gcode e [''{md:0}''] s)"

definition command_motor_enable :: "env \<Rightarrow> real option \<Rightarrow> controller \<Rightarrow> controller" where
  "command_motor_enable e arg s =
     (let mt = (case arg of None \<Rightarrow> state_mt s | Some v \<Rightarrow> v)
      in if mt \<le> 0 then command_motor_disable e s
         else command_gcode e [''{pwr:n}'']
                (command_gcode e [''{me:'' @ numberToString e mt @ ''}''] s))"

definition command_motor_timeout :: "env \<Rightarrow> real \<Rightarrow> controller \<Rightarrow> controller" where
  "command_motor_timeout e mt s =
     (if mt \<ge> 0 then command_gcode e [''{mt:'' @ numberToString e mt @ ''}''] s else s)"

definition command_lasertest :: "env \<Rightarrow> real \<Rightarrow> real \<Rightarrow> real \<Rightarrow> controller \<Rightarrow> controller" where
  "command_lasertest e power_pct duration maxS s =
     (if power_pct = 0 then command_gcode e [''M5S0''] s
      else
        (let s1 = command_gcode e
                    [''M3S'' @ numberToString e (ensurePositiveNumber e (maxS * (power_pct / 100)))] s
         in if duration > 0 then
              command_gcode e [''M5S0'']
                (command_gcode e
                   [''G4P'' @ numberToString e (ensurePositiveNumber e (duration / 1000))] s1)
            else s1))"

definition command_macro_run :: "env \<Rightarrow> string \<Rightarrow> controller \<Rightarrow> controller" where
  "command_macro_run e ident s =
     (case macros e ident of
        None \<Rightarrow> log_call (LogError ''Cannot find the macro'') s
      | Some (name, content) \<Rightarrow> command_gcode e [content] (event_trigger e ''macro:run'' s))"

definition command_macro_load :: "env \<Rightarrow> string \<Rightarrow> controller \<Rightarrow> controller" where
  "command_macro_load e ident s =
     (case macros e ident of
        None \<Rightarrow> log_call (LogError ''Cannot find the macro'') s
      | Some (name, content) \<Rightarrow>
          command_sender_load e name content (event_trigger e ''macro:load'' s))"

definition command_watchdir_load :: "env \<Rightarrow> string \<Rightarrow> controller \<Rightarrow> controller" where
  "command_watchdir_load e file s =
     (case readFile e file of
        None \<Rightarrow> s
      | Some content \<Rightarrow> command_sender_load e file content s)"

section \<open>Bring-up\<close>

text \<open>\<^verbatim>\<open>json.replace(/"/g, '').replace(/true/g, 't')\<close>\<close>

function replace_true :: "string \<Rightarrow> string" where
  "replace_true [] = []"
| "replace_true (c # cs) =
     (if take 4 (c # cs) = ''true'' then CHR ''t'' # replace_true (drop 3 cs)
      else c # replace_true cs)"
  by pat_completeness auto
termination
  by (relation "measure length") auto

definition relaxedJSON :: "string \<Rightarrow> string" where
  "relaxedJSON json = replace_true (filter (\<lambda>c. c \<noteq> CHR 0x22) json)"

text \<open>
  \<^verbatim>\<open>JSON.stringify({ sr: obj })\<close> for an object of booleans whose keys need no
  escaping (the keys of the status report mask are lower-case words).
\<close>

definition stringify_member :: "string \<times> bool \<Rightarrow> string" where
  "stringify_member m =
     [CHR 0x22] @ fst m @ [CHR 0x22] @ '':'' @ (if snd m then ''true'' else ''false'')"

fun join_commas :: "string list \<Rightarrow> string" where
  "join_commas [] = []"
| "join_commas [l] = l"
| "join_commas (l # m # ls) = l @ '','' @ join_commas (m # ls)"

definition stringify_sr :: "(string \<times> bool) list \<Rightarrow> string" where
  "stringify_sr obj =
     ''{'' @ [CHR 0x22] @ ''sr'' @ [CHR 0x22] @ '':{'' @ join_commas (map stringify_member obj) @ ''}}''"

text \<open>\<^verbatim>\<open>_.pickBy(this.sr, (value, key) => !!value)\<close>\<close>

definition pickBy_value :: "(string \<times> bool) list \<Rightarrow> (string \<times> bool) list" where
  "pickBy_value obj = filter (\<lambda>m. snd m) obj"

text \<open>The argument of the \<^verbatim>\<open>send\<close> that sets the status report fields.\<close>

definition status_report_fields :: "controller \<Rightarrow> string" where
  "status_report_fields s = relaxedJSON (stringify_sr (pickBy_value (sr s)))"

text \<open>The local function \<^verbatim>\<open>send\<close> of \<^verbatim>\<open>initController\<close>.\<close>

definition send :: "env \<Rightarrow> string \<Rightarrow> controller \<Rightarrow> controller" where
  "send e cmd s =
     (if \<not> isOpen s then s
      else if length cmd \<ge> SERIAL_BUFFER_LIMIT e
        then log_call (LogError ''Exceeded serial buffer limit'') s
      else command_gcode e [cmd] s)"

text \<open>
  \<^verbatim>\<open>initController\<close> is asynchronous: it runs up to its next \<^verbatim>\<open>await delay\<close>
  and is resumed later, so that frames are handled in between. \<open>initController e n\<close>
  is the stretch that follows the \<open>n\<close>-th wait.
\<close>

definition initController :: "env \<Rightarrow> nat \<Rightarrow> controller \<Rightarrow> controller" where
  "initController e n s =
     (if n = 0 then
        send e ''{si:100}'' (send e ''{sv:1}'' (send e ''{qv:1}'' (send e ''{jv:4}''
          (send e ''{ej:1}'' s))))
      else if n = 1 then send e ''{spe:n}'' s
      else if n = 2 then send e ''{spd:n}'' s
      else if n = 3 then send e ''{spc:n}'' s
      else if n = 4 then send e ''{sps:n}'' s
      else if n = 5 then send e ''{com:n}'' s
      else if n = 6 then send e ''{cof:n}'' s
      else if n = 7 then
        send e ''{sr:n}'' (send e ''{qr:n}'' (send e ''{pwr:n}'' (send e ''{mt:n}''
          (send e ''{sys:n}'' (send e (status_report_fields s) s)))))
      else if n = 8 then event_trigger e ''controller:ready'' s
      else s)"

text \<open>The status report mask of a new controller.\<close>

definition sr_fields :: "string list" where
  "sr_fields =
     [''stat'', ''line'', ''vel'', ''feed'', ''unit'', ''coor'', ''momo'', ''plan'', ''path'',
      ''dist'', ''admo'', ''frmo'', ''tool'',
      ''posx'', ''posy'', ''posz'', ''posa'', ''posb'', ''posc'',
      ''mpox'', ''mpoy'', ''mpoz'', ''mpoa'', ''mpob'', ''mpoc'',
      ''spe'', ''spd'', ''spc'', ''sps'', ''com'', ''cof'']"

definition initial :: controller where
  "initial =
     \<lparr>workflow = WORKFLOW_STATE_IDLE, blocked = False, senderStatus = SENDER_STATUS_NONE,
      ready = False, isOpen = False, sr = map (\<lambda>k. (k, True)) sr_fields,
      senderFinishTime = 0, settings_fb = 0, state_qr = None, state_mt = 0,
      s_lines = [], s_total = 0, s_sent = 0, s_received = 0, s_hold = False,
      s_holdReason = None,
      f_queue = [], f_hold = False, f_holdReason = None, f_pending = False,
      runner_plannerBufferPoolSize = 0, runner_isAlarm = False, runner_mfo = 1,
      runner_sso = 1, ctx = 0, clock = 0, written = [], calls = []\<rparr>"

text \<open>
  The callback of \<^verbatim>\<open>connection.open\<close> up to its wait for the bootloader
  (\<^verbatim>\<open>command('unload')\<close> there names no handler of the dispatch table and is only logged),
  its continuation, and the listeners for \<open>close\<close> and \<open>error\<close>.
\<close>

definition connection_opened :: "env \<Rightarrow> controller \<Rightarrow> controller" where
  "connection_opened e s =
     (workflow_stop e (emit ''connection:open'' NoPayload (s\<lparr>isOpen := True\<rparr>)))
       \<lparr>senderFinishTime := 0\<rparr>"

definition controller_ready :: "env \<Rightarrow> controller \<Rightarrow> controller" where
  "controller_ready e s = initController e 0 (s\<lparr>ready := True\<rparr>)"

definition connection_closed :: "controller \<Rightarrow> controller" where
  "connection_closed s = (emit ''connection:close'' NoPayload (s\<lparr>ready := False\<rparr>))\<lparr>isOpen := False\<rparr>"

definition connection_error :: "controller \<Rightarrow> controller" where
  "connection_error s = s\<lparr>ready := False\<rparr>"

section \<open>Events\<close>

datatype cmd =
    SENDER_LOAD string string
  | SENDER_UNLOAD
  | SENDER_START
  | SENDER_STOP bool
  | SENDER_PAUSE
  | SENDER_RESUME
  | FEEDER_START
  | FEEDER_STOP
  | FEEDHOLD
  | CYCLESTART
  | HOMING
  | SLEEP
  | UNLOCK
  | RESET
  | OVERRIDE_FEED real
  | OVERRIDE_SPINDLE real
  | OVERRIDE_RAPID real
  | MOTOR_ENABLE "real option"
  | MOTOR_DISABLE
  | MOTOR_TIMEOUT real
  | LASERTEST real real real
  | GCODE "string list"
  | MACRO_RUN string
  | MACRO_LOAD string
  | WATCHDIR_LOAD string
  | UNKNOWN string

text \<open>\<^verbatim>\<open>command(cmd, ...args)\<close>\<close>

fun command :: "env \<Rightarrow> cmd \<Rightarrow> controller \<Rightarrow> controller" where
  "command e (SENDER_LOAD name content) s = command_sender_load e name content s"
| "command e SENDER_UNLOAD s = command_sender_unload e s"
| "command e SENDER_START s = command_sender_start e s"
| "command e (SENDER_STOP force) s = command_sender_stop e force s"
| "command e SENDER_PAUSE s = command_sender_pause e s"
| "command e SENDER_RESUME s = command_sender_resume e s"
| "command e FEEDER_START s = command_feeder_start e s"
| "command e FEEDER_STOP s = command_feeder_stop s"
| "command e FEEDHOLD s = command_feedhold e s"
| "command e CYCLESTART s = command_cyclestart e s"
| "command e HOMING s = command_homing e s"
| "command e SLEEP s = command_sleep e s"
| "command e UNLOCK s = command_unlock s"
| "command e RESET s = command_reset e s"
| "command e (OVERRIDE_FEED v) s = command_override_feed e v s"
| "command e (OVERRIDE_SPINDLE v) s = command_override_spindle e v s"
| "command e (OVERRIDE_RAPID v) s = command_override_rapid e v s"
| "command e (MOTOR_ENABLE mt) s = command_motor_enable e mt s"
| "command e MOTOR_DISABLE s = command_motor_disable e s"
| "command e (MOTOR_TIMEOUT mt) s = command_motor_timeout e mt s"
| "command e (LASERTEST p d m) s = command_lasertest e p d m s"
| "command e (GCODE commands) s = command_gcode e commands s"
| "command e (MACRO_RUN ident) s = command_macro_run e ident s"
| "command e (MACRO_LOAD ident) s = command_macro_load e ident s"
| "command e (WATCHDIR_LOAD file) s = command_watchdir_load e file s"
| "command e (UNKNOWN name) s = log_call (LogError ''Unknown command'') s"

text \<open>
  What can happen to a controller: a decoded frame, a command, a transition of the
  workflow taken on its own, the steps of the bring-up, the connection's events, and a
  change of what the Runner and the clock report (the Runner decodes the status,
  settings and queue reports outside the controller). The query timer is not an event of
  its own: it touches the Sender and the Workflow only through the command
  \<open>sender:stop\<close>, and copies the Runner's settings, which \<open>RUNNER_SETTINGS\<close> covers.
\<close>

datatype event =
    FRAME_R "(string \<Rightarrow> json option) option"
  | FRAME_QR nat
  | FRAME_F "int list"
  | FRAME_SR
  | FRAME_FB
  | FRAME_HP
  | FRAME_RAW string
  | COMMAND cmd
  | WORKFLOW workflow_transition "reason option"
  | CONNECTION_OPENED
  | CONTROLLER_READY
  | INIT nat
  | CONNECTION_CLOSED
  | CONNECTION_ERROR
  | RUNNER_POOL nat
  | RUNNER_ALARM bool
  | RUNNER_SETTINGS real real real real
  | RUNNER_CONTEXT nat
  | CLOCK nat

fun step :: "env \<Rightarrow> event \<Rightarrow> controller \<Rightarrow> controller" where
  "step e (FRAME_R r) s = on_r e r s"
| "step e (FRAME_QR qr) s = on_qr e qr s"
| "step e (FRAME_F f) s = on_f e f s"
| "step e FRAME_SR s = s"
| "step e FRAME_FB s = s"
| "step e FRAME_HP s = s"
| "step e (FRAME_RAW raw) s = on_raw raw s"
| "step e (COMMAND c) s = command e c s"
| "step e (WORKFLOW WorkflowStart r) s = workflow_start e s"
| "step e (WORKFLOW WorkflowStop r) s = workflow_stop e s"
| "step e (WORKFLOW WorkflowPause r) s = workflow_pause e r s"
| "step e (WORKFLOW WorkflowResume r) s = workflow_resume e s"
| "step e CONNECTION_OPENED s = connection_opened e s"
| "step e CONTROLLER_READY s = controller_ready e s"
| "step e (INIT n) s = initController e n s"
| "step e CONNECTION_CLOSED s = connection_closed s"
| "step e CONNECTION_ERROR s = connection_error s"
| "step e (RUNNER_POOL n) s = s\<lparr>runner_plannerBufferPoolSize := n\<rparr>"
| "step e (RUNNER_ALARM b) s = s\<lparr>runner_isAlarm := b\<rparr>"
| "step e (RUNNER_SETTINGS fb mfo sso mt) s =
     s\<lparr>settings_fb := fb, runner_mfo := mfo, runner_sso := sso, state_mt := mt\<rparr>"
| "step e (RUNNER_CONTEXT c) s = s\<lparr>ctx := c\<rparr>"
| "step e (CLOCK t) s = s\<lparr>clock := t\<rparr>"

text \<open>The controller after a sequence of events, the first event first.\<close>

fun run :: "env \<Rightarrow> event list \<Rightarrow> controller \<Rightarrow> controller" where
  "run e [] s = s"
| "run e (ev # evs) s = run e evs (step e ev s)"

section \<open>Observations\<close>

text \<open>The chunks the Sender's data handler has written to the connection.\<close>

definition sender_written :: "controller \<Rightarrow> string list" where
  "sender_written s = map snd (filter (\<lambda>w. fst w = WRITE_SOURCE_SENDER) (written s))"

text \<open>The chunks the controller's own \<^verbatim>\<open>write\<close> has written to the connection.\<close>

definition client_written :: "controller \<Rightarrow> string list" where
  "client_written s = map snd (filter (\<lambda>w. fst w = WRITE_SOURCE_CLIENT) (written s))"

text \<open>
  The steps of the flow control among the calls: the assignments to
  \<^verbatim>\<open>senderStatus\<close> and the calls of \<^verbatim>\<open>sender.ack()\<close>, \<^verbatim>\<open>sender.next()\<close>
  and \<^verbatim>\<open>sender.unhold()\<close>.
\<close>

fun is_flow_call :: "call \<Rightarrow> bool" where
  "is_flow_call (SetSenderStatus v) = True"
| "is_flow_call SenderAck = True"
| "is_flow_call SenderNext = True"
| "is_flow_call SenderUnhold = True"
| "is_flow_call c = False"

definition flow_trace :: "controller \<Rightarrow> call list" where
  "flow_trace s = filter is_flow_call (calls s)"

text \<open>
  The lines handed to \<^verbatim>\<open>writeln\<close>, the number of calls of \<^verbatim>\<open>feeder.next()\<close>,
  and the broadcasts of a structured error.
\<close>

fun is_writeln :: "call \<Rightarrow> bool" where
  "is_writeln (Writeln l) = True"
| "is_writeln c = False"

definition writeln_trace :: "controller \<Rightarrow> call list" where
  "writeln_trace s = filter is_writeln (calls s)"

definition feeder_next_calls :: "controller \<Rightarrow> nat" where
  "feeder_next_calls s = length (filter (\<lambda>c. c = FeederNext) (calls s))"

fun is_error_broadcast :: "call \<Rightarrow> bool" where
  "is_error_broadcast (Emit name (ErrPayload code msg)) = True"
| "is_error_broadcast (Emit name (LineErrPayload code msg n l)) = True"
| "is_error_broadcast c = False"

definition error_broadcasts :: "controller \<Rightarrow> call list" where
  "error_broadcasts s = filter is_error_broadcast (calls s)"

text \<open>The clamp of the override arithmetic, as the specification words it.\<close>

definition clamp :: "real \<Rightarrow> real \<Rightarrow> real \<Rightarrow> real" where
  "clamp x lo hi = (if x < lo then lo else if x > hi then hi else x)"

text \<open>
  The status report command for a mask, as the firmware is to read it: the keys whose
  bit is set, each followed by \<open>:t\<close>. \<open>probe_fields\<close> are the capabilities probed
  by the bring-up.
\<close>

definition mask_command :: "(string \<times> bool) list \<Rightarrow> string" where
  "mask_command m = ''{sr:{'' @ join_commas (map (\<lambda>k. k @ '':t'') (map fst (filter snd m))) @ ''}}''"

definition probe_fields :: "string list" where
  "probe_fields = [''spe'', ''spd'', ''spc'', ''sps'', ''com'', ''cof'']"

section \<open>Views and invariants\<close>

text \<open>
  What the flow control of the Sender reads and writes: the state of the workflow, the
  flags, the Sender's program, counters and hold, whether the connection is open, what
  the Sender has transmitted, and the steps of the flow control so far.
\<close>

definition sender_view ::
  "controller \<Rightarrow>
     (workflow_state \<times> bool \<times> sender_status \<times> bool) \<times>
     (string list \<times> nat \<times> nat \<times> nat \<times> bool \<times> reason option) \<times>
     (string list \<times> call list)" where
  "sender_view s =
     ((workflow s, blocked s, senderStatus s, isOpen s),
      (s_lines s, s_total s, s_sent s, s_received s, s_hold s, s_holdReason s),
      (sender_written s, flow_trace s))"

text \<open>
  What the expression stage of the Sender leaves alone: the flags, the program and the
  counters, what was transmitted and the steps of the flow control.
\<close>

definition counter_view ::
  "controller \<Rightarrow>
     (bool \<times> sender_status \<times> bool) \<times> (string list \<times> nat \<times> nat \<times> nat) \<times>
     (string list \<times> call list)" where
  "counter_view s =
     ((blocked s, senderStatus s, isOpen s),
      (s_lines s, s_total s, s_sent s, s_received s),
      (sender_written s, flow_trace s))"

text \<open>
  What the writes of the commands and the broadcasts of errors read and write.
\<close>

definition side_view ::
  "controller \<Rightarrow> (bool \<times> real) \<times> (string list \<times> call list \<times> call list)" where
  "side_view s =
     ((isOpen s, settings_fb s), (client_written s, writeln_trace s, error_broadcasts s))"

text \<open>While the workflow is paused the Sender is held.\<close>

definition paused_holds :: "controller \<Rightarrow> bool" where
  "paused_holds s \<longleftrightarrow> (workflow s = WORKFLOW_STATE_PAUSED \<longrightarrow> s_hold s)"

text \<open>
  The invariant of the Sender: no more lines sent than the program has, and a hold
  while the workflow is paused. \<open>recv_ok\<close> is the bound of \<open>received\<close> by \<open>sent\<close>.
\<close>

definition sender_inv :: "controller \<Rightarrow> bool" where
  "sender_inv s \<longleftrightarrow> s_sent s \<le> s_total s \<and> paused_holds s"

definition recv_ok :: "controller \<Rightarrow> bool" where
  "recv_ok s \<longleftrightarrow> s_received s \<le> s_sent s"

section \<open>A concrete setting\<close>

text \<open>
  The environment of the scenarios: the water marks 8 and 20, a serial buffer of 256
  characters, no expressions, words separated by blanks, every transition of the
  workflow enabled, no triggers and no macros; of the numbers only the natural ones are
  printed.
\<close>

fun split_spaces :: "string \<Rightarrow> string list" where
  "split_spaces [] = [[]]"
| "split_spaces (c # cs) =
     (if c = CHR '' '' then [] # split_spaces cs
      else (case split_spaces cs of [] \<Rightarrow> [[c]] | w # ws \<Rightarrow> (c # w) # ws))"

definition scenario_env :: env where
  "scenario_env =
     \<lparr>LOW_WATER_MARK = 8, HIGH_WATER_MARK = 20, SERIAL_BUFFER_LIMIT = 256,
      STATUS_CODES = (\<lambda>code. None),
      translateExpression = (\<lambda>c line. line),
      evaluateAssignmentExpression = (\<lambda>line c. c),
      parseLine_words = (\<lambda>line. filter (\<lambda>w. w \<noteq> []) (split_spaces line)),
      ignoreErrors = False,
      workflow_enabled = (\<lambda>t st. True),
      triggers = (\<lambda>name. None),
      numberToString = (\<lambda>x. if 0 \<le> x \<and> x = of_int \<lfloor>x\<rfloor> then string_of_nat (nat \<lfloor>x\<rfloor>) else ''NaN''),
      ensurePositiveNumber = (\<lambda>x. max 0 x),
      macros = (\<lambda>ident. None),
      readFile = (\<lambda>file. None)\<rparr>"

text \<open>
  The frame \<^verbatim>\<open>{"r":{"n":k}}\<close>, and the reply \<^verbatim>\<open>{"r":{"spe":null}}\<close> to the probe
  \<^verbatim>\<open>{spe:n}\<close>.
\<close>

definition r_n :: "int \<Rightarrow> (string \<Rightarrow> json option) option" where
  "r_n k = Some [''n'' \<mapsto> JNum k]"

definition r_spe_null :: "(string \<Rightarrow> json option) option" where
  "r_spe_null = Some [''spe'' \<mapsto> JNull]"

text \<open>
  An idle controller with an open connection, a running one with a firmware build, and
  a running one that has sent seventeen lines.
\<close>

definition open_state :: controller where
  "open_state = initial\<lparr>isOpen := True, runner_mfo := 1.7\<rparr>"

definition fb_state :: "real \<Rightarrow> controller" where
  "fb_state fb = initial\<lparr>isOpen := True, workflow := WORKFLOW_STATE_RUNNING, settings_fb := fb\<rparr>"

definition sending_state :: controller where
  "sending_state =
     initial\<lparr>isOpen := True, workflow := WORKFLOW_STATE_RUNNING, s_total := 40, s_sent := 17\<rparr>"

text \<open>
  A running program of six moves and the final \<open>%wait\<close> line: five lines sent, four
  acknowledged, the Sender not held; and the same program with its six moves sent and
  the \<open>%wait\<close> line next.
\<close>

definition ack_state :: controller where
  "ack_state =
     initial\<lparr>isOpen := True, workflow := WORKFLOW_STATE_RUNNING,
             senderStatus := SENDER_STATUS_NEXT,
             s_lines := [''G0 X1'', ''G0 X2'', ''G0 X3'', ''G0 X4'', ''G0 X5'', ''G0 X6'',
                         ''%wait ; Wait for the planner to empty''],
             s_total := 7, s_sent := 5, s_received := 4\<rparr>"

definition dwell_state :: controller where
  "dwell_state = ack_state\<lparr>s_sent := 6, s_received := 5\<rparr>"

text \<open>
  A program whose fifth line is \<open>%wait\<close>, loaded, started and acknowledged four times:
  five lines sent, four acknowledged, the Sender held by the \<open>%wait\<close> just sent.
\<close>

definition wait_program :: string where
  "wait_program =
     ''G0 X1'' @ [CHR 0x0A] @ ''G0 X2'' @ [CHR 0x0A] @ ''G0 X3'' @ [CHR 0x0A] @ ''G0 X4''
       @ [CHR 0x0A] @ ''%wait'' @ [CHR 0x0A] @ ''G0 X5''"

definition held_state :: controller where
  "held_state =
     run scenario_env
       [CONNECTION_OPENED, COMMAND (SENDER_LOAD ''job'' wait_program), COMMAND SENDER_START,
        FRAME_R (r_n 1), FRAME_R (r_n 2), FRAME_R (r_n 3), FRAME_R (r_n 4)]
       initial"

text \<open>
  A program of one move, loaded and started with a planner pool of four, after the
  acknowledgements of the move and of the dwell that stands for the final \<open>%wait\<close>:
  the Sender is held and every line is acknowledged.
\<close>

definition drained_state :: controller where
  "drained_state =
     run scenario_env
       [CONNECTION_OPENED, RUNNER_POOL 4, COMMAND (SENDER_LOAD ''job'' ''G0 X1''),
        COMMAND SENDER_START, FRAME_R (r_n 1), FRAME_R (r_n 2)]
       initial"

text \<open>A program of two moves, loaded and started: its first line is in flight.\<close>

definition started_state :: controller where
  "started_state =
     run scenario_env
       [CONNECTION_OPENED, COMMAND (SENDER_LOAD ''job'' (''G0 X1'' @ [CHR 0x0A] @ ''G0 X2'')),
        COMMAND SENDER_START]
       initial"

text \<open>
  The same program, loaded and started; then a queue report below the low water mark,
  and the acknowledgement of the first move.
\<close>

definition blocked_events :: "event list" where
  "blocked_events =
     [CONNECTION_OPENED, COMMAND (SENDER_LOAD ''job'' (''G0 X1'' @ [CHR 0x0A] @ ''G0 X2'')),
      COMMAND SENDER_START, FRAME_QR 4, FRAME_R (r_n 1)]"

definition blocked_state :: controller where
  "blocked_state = run scenario_env blocked_events initial"

text \<open>An opened connection, and the reply to the probe of \<open>spe\<close> received on it.\<close>

definition opened_events :: "event list" where
  "opened_events = [CONNECTION_OPENED]"

definition probed_events :: "event list" where
  "probed_events = [CONNECTION_OPENED, FRAME_R r_spe_null]"

definition probed_state :: controller where
  "probed_state = run scenario_env probed_events initial"

section \<open>Basic facts\<close>

subsection \<open>What the Feeder, the writes and the broadcasts leave alone\<close>

lemma view_fields:
  "sender_view s' = sender_view s \<Longrightarrow>
     workflow s' = workflow s \<and> blocked s' = blocked s \<and> senderStatus s' = senderStatus s
     \<and> isOpen s' = isOpen s \<and> s_lines s' = s_lines s \<and> s_total s' = s_total s
     \<and> s_sent s' = s_sent s \<and> s_received s' = s_received s \<and> s_hold s' = s_hold s
     \<and> s_holdReason s' = s_holdReason s \<and> sender_written s' = sender_written s
     \<and> flow_trace s' = flow_trace s"
  by (simp add: sender_view_def)

lemma view_log_call [simp]: "\<not> is_flow_call c \<Longrightarrow> sender_view (log_call c s) = sender_view s"
  by (simp add: sender_view_def log_call_def sender_written_def flow_trace_def)

lemma view_emit [simp]: "sender_view (emit name p s) = sender_view s"
  by (simp add: emit_def)

lemma view_connection_write [simp]:
  "w \<noteq> WRITE_SOURCE_SENDER \<Longrightarrow> sender_view (connection_write w chunk s) = sender_view s"
  by (simp add: sender_view_def connection_write_def sender_written_def flow_trace_def)

lemma view_controller_write [simp]: "sender_view (controller_write chunk s) = sender_view s"
  by (simp add: controller_write_def)

lemma view_controller_writeln [simp]: "sender_view (controller_writeln chunk s) = sender_view s"
  by (simp add: controller_writeln_def)

lemma view_f_update [simp]:
  "sender_view (s\<lparr>f_queue := q\<rparr>) = sender_view s"
  "sender_view (s\<lparr>f_hold := h\<rparr>) = sender_view s"
  "sender_view (s\<lparr>f_holdReason := hr\<rparr>) = sender_view s"
  "sender_view (s\<lparr>f_pending := p\<rparr>) = sender_view s"
  "sender_view (s\<lparr>ctx := c\<rparr>) = sender_view s"
  "sender_view (s\<lparr>ready := b\<rparr>) = sender_view s"
  "sender_view (s\<lparr>state_qr := qr\<rparr>) = sender_view s"
  "sender_view (s\<lparr>senderFinishTime := t\<rparr>) = sender_view s"
  "sender_view (s\<lparr>sr := m\<rparr>) = sender_view s"
  by (simp_all add: sender_view_def sender_written_def flow_trace_def)

lemma view_feeder_hold [simp]: "sender_view (feeder_hold r s) = sender_view s"
  by (simp add: feeder_hold_def Let_def)

lemma view_feeder_unhold [simp]: "sender_view (feeder_unhold s) = sender_view s"
  by (simp add: feeder_unhold_def Let_def)

lemma view_feeder_reset [simp]: "sender_view (feeder_reset s) = sender_view s"
  by (simp add: feeder_reset_def)

lemma view_feeder_feed [simp]: "sender_view (feeder_feed ls s) = sender_view s"
  by (simp add: feeder_feed_def)

lemma view_feeder_dataFilter [simp]:
  "sender_view (snd (feeder_dataFilter e line s)) = sender_view s"
  by (simp add: feeder_dataFilter_def Let_def)

lemma view_feeder_on_data [simp]: "sender_view (feeder_on_data line s) = sender_view s"
  by (simp add: feeder_on_data_def Let_def)

lemma view_feeder_next [simp]: "sender_view (feeder_next e s) = sender_view s"
  by (simp add: feeder_next_def Let_def split_beta split: list.split)

lemma view_command_gcode [simp]: "sender_view (command_gcode e commands s) = sender_view s"
  by (simp add: command_gcode_def Let_def)

lemma view_event_trigger [simp]: "sender_view (event_trigger e name s) = sender_view s"
  by (simp add: event_trigger_def Let_def split: option.split)

lemma view_send [simp]: "sender_view (send e c s) = sender_view s"
  by (simp add: send_def)

lemma view_initController [simp]: "sender_view (initController e n s) = sender_view s"
  by (simp add: initController_def)

subsection \<open>The expression stage and the pipeline of the Sender\<close>

lemma counter_fields:
  "counter_view s' = counter_view s \<Longrightarrow>
     blocked s' = blocked s \<and> senderStatus s' = senderStatus s
     \<and> isOpen s' = isOpen s \<and> s_lines s' = s_lines s \<and> s_total s' = s_total s
     \<and> s_sent s' = s_sent s \<and> s_received s' = s_received s
     \<and> sender_written s' = sender_written s \<and> flow_trace s' = flow_trace s"
  by (simp add: counter_view_def)

lemma counter_of_view: "sender_view s' = sender_view s \<Longrightarrow> counter_view s' = counter_view s"
  by (simp add: sender_view_def counter_view_def)

lemma cv_log_call [simp]: "\<not> is_flow_call c \<Longrightarrow> counter_view (log_call c s) = counter_view s"
  by (rule counter_of_view) simp

lemma cv_emit [simp]: "counter_view (emit name p s) = counter_view s"
  by (rule counter_of_view) simp

lemma cv_update [simp]:
  "counter_view (s\<lparr>s_hold := h\<rparr>) = counter_view s"
  "counter_view (s\<lparr>s_holdReason := hr\<rparr>) = counter_view s"
  "counter_view (s\<lparr>workflow := w\<rparr>) = counter_view s"
  "counter_view (s\<lparr>ctx := c\<rparr>) = counter_view s"
  by (simp_all add: counter_view_def sender_written_def flow_trace_def)

lemma cv_sender_hold [simp]: "counter_view (sender_hold r s) = counter_view s"
  by (simp add: sender_hold_def Let_def)

lemma hold_sender_hold [simp]: "s_hold (sender_hold r s)"
  by (simp add: sender_hold_def Let_def log_call_def)

lemma workflow_sender_hold [simp]: "workflow (sender_hold r s) = workflow s"
  by (simp add: sender_hold_def Let_def log_call_def)

lemma cv_workflow_pause [simp]: "counter_view (workflow_pause e r s) = counter_view s"
  by (simp add: workflow_pause_def on_workflow_pause_def Let_def)

lemma hold_workflow_pause: "s_hold s \<Longrightarrow> s_hold (workflow_pause e r s)"
  by (simp add: workflow_pause_def on_workflow_pause_def Let_def log_call_def)

lemma paused_workflow_pause [simp]: "paused_holds s \<Longrightarrow> paused_holds (workflow_pause e r s)"
  by (simp add: paused_holds_def workflow_pause_def on_workflow_pause_def Let_def log_call_def emit_def)

lemma cv_sender_dataFilter [simp]:
  "counter_view (snd (sender_dataFilter e line s)) = counter_view s"
  by (simp add: sender_dataFilter_def Let_def)

lemma hold_sender_dataFilter: "s_hold s \<Longrightarrow> s_hold (snd (sender_dataFilter e line s))"
  by (simp add: sender_dataFilter_def Let_def hold_workflow_pause)

lemma paused_sender_dataFilter [simp]:
  "paused_holds s \<Longrightarrow> paused_holds (snd (sender_dataFilter e line s))"
  by (simp add: sender_dataFilter_def Let_def) (simp add: paused_holds_def)

lemma flow_trace_update [simp]:
  "flow_trace (s\<lparr>workflow := x0\<rparr>) = flow_trace s"
  "flow_trace (s\<lparr>blocked := x1\<rparr>) = flow_trace s"
  "flow_trace (s\<lparr>senderStatus := x2\<rparr>) = flow_trace s"
  "flow_trace (s\<lparr>ready := x3\<rparr>) = flow_trace s"
  "flow_trace (s\<lparr>isOpen := x4\<rparr>) = flow_trace s"
  "flow_trace (s\<lparr>sr := x5\<rparr>) = flow_trace s"
  "flow_trace (s\<lparr>senderFinishTime := x6\<rparr>) = flow_trace s"
  "flow_trace (s\<lparr>settings_fb := x7\<rparr>) = flow_trace s"
  "flow_trace (s\<lparr>state_qr := x8\<rparr>) = flow_trace s"
  "flow_trace (s\<lparr>state_mt := x9\<rparr>) = flow_trace s"
  "flow_trace (s\<lparr>s_lines := x10\<rparr>) = flow_trace s"
  "flow_trace (s\<lparr>s_total := x11\<rparr>) = flow_trace s"
  "flow_trace (s\<lparr>s_sent := x12\<rparr>) = flow_trace s"
  "flow_trace (s\<lparr>s_received := x13\<rparr>) = flow_trace s"
  "flow_trace (s\<lparr>s_hold := x14\<rparr>) = flow_trace s"
  "flow_trace (s\<lparr>s_holdReason := x15\<rparr>) = flow_trace s"
  "flow_trace (s\<lparr>f_queue := x16\<rparr>) = flow_trace s"
  "flow_trace (s\<lparr>f_hold := x17\<rparr>) = flow_trace s"
  "flow_trace (s\<lparr>f_holdReason := x18\<rparr>) = flow_trace s"
  "flow_trace (s\<lparr>f_pending := x19\<rparr>) = flow_trace s"
  "flow_trace (s\<lparr>runner_plannerBufferPoolSize := x20\<rparr>) = flow_trace s"
  "flow_trace (s\<lparr>runner_isAlarm := x21\<rparr>) = flow_trace s"
  "flow_trace (s\<lparr>runner_mfo := x22\<rparr>) = flow_trace s"
  "flow_trace (s\<lparr>runner_sso := x23\<rparr>) = flow_trace s"
  "flow_trace (s\<lparr>ctx := x24\<rparr>) = flow_trace s"
  "flow_trace (s\<lparr>clock := x25\<rparr>) = flow_trace s"
  "flow_trace (s\<lparr>written := x99\<rparr>) = flow_trace s"
  by (simp_all add: flow_trace_def)

lemma sender_written_update [simp]:
  "sender_written (s\<lparr>workflow := x0\<rparr>) = sender_written s"
  "sender_written (s\<lparr>blocked := x1\<rparr>) = sender_written s"
  "sender_written (s\<lparr>senderStatus := x2\<rparr>) = sender_written s"
  "sender_written (s\<lparr>ready := x3\<rparr>) = sender_written s"
  "sender_written (s\<lparr>isOpen := x4\<rparr>) = sender_written s"
  "sender_written (s\<lparr>sr := x5\<rparr>) = sender_written s"
  "sender_written (s\<lparr>senderFinishTime := x6\<rparr>) = sender_written s"
  "sender_written (s\<lparr>settings_fb := x7\<rparr>) = sender_written s"
  "sender_written (s\<lparr>state_qr := x8\<rparr>) = sender_written s"
  "sender_written (s\<lparr>state_mt := x9\<rparr>) = sender_written s"
  "sender_written (s\<lparr>s_lines := x10\<rparr>) = sender_written s"
  "sender_written (s\<lparr>s_total := x11\<rparr>) = sender_written s"
  "sender_written (s\<lparr>s_sent := x12\<rparr>) = sender_written s"
  "sender_written (s\<lparr>s_received := x13\<rparr>) = sender_written s"
  "sender_written (s\<lparr>s_hold := x14\<rparr>) = sender_written s"
  "sender_written (s\<lparr>s_holdReason := x15\<rparr>) = sender_written s"
  "sender_written (s\<lparr>f_queue := x16\<rparr>) = sender_written s"
  "sender_written (s\<lparr>f_hold := x17\<rparr>) = sender_written s"
  "sender_written (s\<lparr>f_holdReason := x18\<rparr>) = sender_written s"
  "sender_written (s\<lparr>f_pending := x19\<rparr>) = sender_written s"
  "sender_written (s\<lparr>runner_plannerBufferPoolSize := x20\<rparr>) = sender_written s"
  "sender_written (s\<lparr>runner_isAlarm := x21\<rparr>) = sender_written s"
  "sender_written (s\<lparr>runner_mfo := x22\<rparr>) = sender_written s"
  "sender_written (s\<lparr>runner_sso := x23\<rparr>) = sender_written s"
  "sender_written (s\<lparr>ctx := x24\<rparr>) = sender_written s"
  "sender_written (s\<lparr>clock := x25\<rparr>) = sender_written s"
  "sender_written (s\<lparr>calls := x99\<rparr>) = sender_written s"
  by (simp_all add: sender_written_def)

lemmas sender_dataFilter_fields [simp] = counter_fields [OF cv_sender_dataFilter]

lemmas prim_defs = log_call_def emit_def connection_write_def set_senderStatus_def
  sender_hold_def sender_unhold_def sender_rewind_def sender_ack_def on_sender_end_def
  sender_load_def sender_unload_def

lemma sender_on_data_fields [simp]:
  "workflow (sender_on_data line s) = workflow s"
  "blocked (sender_on_data line s) = blocked s"
  "senderStatus (sender_on_data line s) = senderStatus s"
  "isOpen (sender_on_data line s) = isOpen s"
  "s_lines (sender_on_data line s) = s_lines s"
  "s_total (sender_on_data line s) = s_total s"
  "s_sent (sender_on_data line s) = s_sent s"
  "s_received (sender_on_data line s) = s_received s"
  "s_hold (sender_on_data line s) = s_hold s"
  "s_holdReason (sender_on_data line s) = s_holdReason s"
  "flow_trace (sender_on_data line s) = flow_trace s"
  by (simp_all add: sender_on_data_def prim_defs Let_def flow_trace_def)

lemma sender_next_sent [simp]:
  "s_sent (sender_next e s) =
     (if s_hold s \<or> s_sent s = s_total s then s_sent s else s_sent s + 1)"
  by (simp add: sender_next_def Let_def split_beta log_call_def)

lemma sender_next_fields [simp]:
  "blocked (sender_next e s) = blocked s"
  "senderStatus (sender_next e s) = senderStatus s"
  "isOpen (sender_next e s) = isOpen s"
  "s_lines (sender_next e s) = s_lines s"
  "s_total (sender_next e s) = s_total s"
  "s_received (sender_next e s) = s_received s"
  by (simp_all add: sender_next_def Let_def split_beta log_call_def)

lemma flow_trace_log_call [simp]:
  "flow_trace (log_call c s) = (if is_flow_call c then flow_trace s @ [c] else flow_trace s)"
  by (simp add: flow_trace_def log_call_def)

lemma sender_written_log_call [simp]: "sender_written (log_call c s) = sender_written s"
  by (simp add: sender_written_def log_call_def)

lemma sender_next_flow_trace [simp]:
  "flow_trace (sender_next e s) = flow_trace s @ [SenderNext]"
  by (simp add: sender_next_def Let_def split_beta)

lemma sender_next_held:
  "s_hold s \<or> s_sent s = s_total s \<Longrightarrow> sender_written (sender_next e s) = sender_written s"
  "s_hold s \<or> s_sent s = s_total s \<Longrightarrow> workflow (sender_next e s) = workflow s"
  "s_hold s \<or> s_sent s = s_total s \<Longrightarrow> s_hold (sender_next e s) = s_hold s"
  by (auto simp add: sender_next_def Let_def log_call_def sender_written_def)

lemma sender_next_hold_mono: "s_hold s \<Longrightarrow> s_hold (sender_next e s)"
  by (simp add: sender_next_held)

lemma paused_sender_next [simp]: "paused_holds s \<Longrightarrow> paused_holds (sender_next e s)"
proof -
  assume a: "paused_holds s"
  have "paused_holds (log_call SenderNext s)"
    using a by (simp add: paused_holds_def log_call_def)
  then have "paused_holds (snd (sender_dataFilter e l (log_call SenderNext s)))" for l
    by simp
  then show ?thesis
    using a by (simp add: sender_next_def Let_def split_beta paused_holds_def log_call_def)
qed

lemma prim_fields [simp]:
  "s_sent (sender_ack s) = s_sent s"
  "s_received (sender_ack s) = (if s_received s < s_sent s then s_received s + 1 else s_received s)"
  "s_total (sender_ack s) = s_total s"
  "s_hold (sender_ack s) = s_hold s"
  "blocked (sender_ack s) = blocked s"
  "workflow (sender_ack s) = workflow s"
  "isOpen (sender_ack s) = isOpen s"
  "s_lines (sender_ack s) = s_lines s"
  "senderStatus (sender_ack s) = senderStatus s"
  "flow_trace (sender_ack s) = flow_trace s @ [SenderAck]"
  "sender_written (sender_ack s) = sender_written s"
  by (simp_all add: sender_ack_def on_sender_end_def Let_def log_call_def flow_trace_def sender_written_def)

lemma set_senderStatus_fields [simp]:
  "s_sent (set_senderStatus v s) = s_sent s"
  "s_received (set_senderStatus v s) = s_received s"
  "s_total (set_senderStatus v s) = s_total s"
  "s_hold (set_senderStatus v s) = s_hold s"
  "blocked (set_senderStatus v s) = blocked s"
  "workflow (set_senderStatus v s) = workflow s"
  "isOpen (set_senderStatus v s) = isOpen s"
  "s_lines (set_senderStatus v s) = s_lines s"
  "senderStatus (set_senderStatus v s) = v"
  "flow_trace (set_senderStatus v s) = flow_trace s @ [SetSenderStatus v]"
  "sender_written (set_senderStatus v s) = sender_written s"
  by (simp_all add: set_senderStatus_def log_call_def flow_trace_def sender_written_def)

lemma clear_if_null_view [simp]: "sender_view (clear_if_null r k s) = sender_view s"
  by (simp add: clear_if_null_def)

lemmas clear_if_null_fields [simp] = view_fields [OF clear_if_null_view]

lemma on_r_running:
  "workflow s = WORKFLOW_STATE_RUNNING \<Longrightarrow> \<not> blocked s \<Longrightarrow>
   on_r e r s = set_senderStatus SENDER_STATUS_NEXT (sender_next e (sender_ack (set_senderStatus SENDER_STATUS_ACK (probed r s))))"
  by (simp add: on_r_def probed_def Let_def)

subsection \<open>Writes, broadcasts and calls of the Feeder\<close>

lemma side_fields:
  "side_view s' = side_view s \<Longrightarrow>
     isOpen s' = isOpen s \<and> settings_fb s' = settings_fb s
     \<and> client_written s' = client_written s \<and> writeln_trace s' = writeln_trace s
     \<and> error_broadcasts s' = error_broadcasts s"
  by (simp add: side_view_def)

lemma side_view_update [simp]:
  "side_view (s\<lparr>workflow := x0\<rparr>) = side_view s"
  "side_view (s\<lparr>blocked := x1\<rparr>) = side_view s"
  "side_view (s\<lparr>senderStatus := x2\<rparr>) = side_view s"
  "side_view (s\<lparr>ready := x3\<rparr>) = side_view s"
  "side_view (s\<lparr>sr := x5\<rparr>) = side_view s"
  "side_view (s\<lparr>senderFinishTime := x6\<rparr>) = side_view s"
  "side_view (s\<lparr>state_qr := x8\<rparr>) = side_view s"
  "side_view (s\<lparr>state_mt := x9\<rparr>) = side_view s"
  "side_view (s\<lparr>s_lines := x10\<rparr>) = side_view s"
  "side_view (s\<lparr>s_total := x11\<rparr>) = side_view s"
  "side_view (s\<lparr>s_sent := x12\<rparr>) = side_view s"
  "side_view (s\<lparr>s_received := x13\<rparr>) = side_view s"
  "side_view (s\<lparr>s_hold := x14\<rparr>) = side_view s"
  "side_view (s\<lparr>s_holdReason := x15\<rparr>) = side_view s"
  "side_view (s\<lparr>f_queue := x16\<rparr>) = side_view s"
  "side_view (s\<lparr>f_hold := x17\<rparr>) = side_view s"
  "side_view (s\<lparr>f_holdReason := x18\<rparr>) = side_view s"
  "side_view (s\<lparr>f_pending := x19\<rparr>) = side_view s"
  "side_view (s\<lparr>runner_plannerBufferPoolSize := x20\<rparr>) = side_view s"
  "side_view (s\<lparr>runner_isAlarm := x21\<rparr>) = side_view s"
  "side_view (s\<lparr>runner_mfo := x22\<rparr>) = side_view s"
  "side_view (s\<lparr>runner_sso := x23\<rparr>) = side_view s"
  "side_view (s\<lparr>ctx := x24\<rparr>) = side_view s"
  "side_view (s\<lparr>clock := x25\<rparr>) = side_view s"
  by (simp_all add: side_view_def client_written_def writeln_trace_def error_broadcasts_def)

lemma sv_log_call [simp]:
  "\<not> is_writeln c \<Longrightarrow> \<not> is_error_broadcast c \<Longrightarrow> side_view (log_call c s) = side_view s"
  by (simp add: side_view_def log_call_def client_written_def writeln_trace_def error_broadcasts_def)

lemma sv_emit [simp]:
  "\<not> is_error_broadcast (Emit name p) \<Longrightarrow> side_view (emit name p s) = side_view s"
  by (simp add: emit_def)

lemma sv_connection_write [simp]:
  "w \<noteq> WRITE_SOURCE_CLIENT \<Longrightarrow> side_view (connection_write w chunk s) = side_view s"
  by (simp add: side_view_def connection_write_def client_written_def writeln_trace_def error_broadcasts_def)

lemma sv_set_senderStatus [simp]: "side_view (set_senderStatus v s) = side_view s"
  by (simp add: set_senderStatus_def)

lemma sv_sender_prims [simp]:
  "side_view (sender_hold r s) = side_view s"
  "side_view (sender_unhold s) = side_view s"
  "side_view (sender_rewind s) = side_view s"
  "side_view (sender_ack s) = side_view s"
  "side_view (sender_unload s) = side_view s"
  "side_view (snd (sender_load content s)) = side_view s"
  by (simp_all add: sender_hold_def sender_unhold_def sender_rewind_def sender_ack_def
        on_sender_end_def sender_unload_def sender_load_def Let_def)

lemma sv_feeder_prims [simp]:
  "side_view (feeder_hold rr s) = side_view s"
  "side_view (feeder_unhold s) = side_view s"
  "side_view (feeder_reset s) = side_view s"
  "side_view (feeder_feed ls s) = side_view s"
  by (simp_all add: feeder_hold_def feeder_unhold_def feeder_reset_def feeder_feed_def Let_def)

lemma sv_feeder_dataFilter [simp]: "side_view (snd (feeder_dataFilter e line s)) = side_view s"
  by (simp add: feeder_dataFilter_def Let_def)

lemma sv_feeder_on_data [simp]: "side_view (feeder_on_data line s) = side_view s"
  by (simp add: feeder_on_data_def Let_def)

lemma sv_feeder_next [simp]: "side_view (feeder_next e s) = side_view s"
  by (simp add: feeder_next_def Let_def split_beta split: list.split)

lemma sv_command_gcode [simp]: "side_view (command_gcode e commands s) = side_view s"
  by (simp add: command_gcode_def Let_def)

lemma sv_event_trigger [simp]: "side_view (event_trigger e name s) = side_view s"
  by (simp add: event_trigger_def Let_def split: option.split)

lemma sv_workflow_pause [simp]: "side_view (workflow_pause e r s) = side_view s"
  by (simp add: workflow_pause_def on_workflow_pause_def Let_def)

lemma sv_workflow_start [simp]: "side_view (workflow_start e s) = side_view s"
  by (simp add: workflow_start_def on_workflow_start_def Let_def)

lemma sv_workflow_stop [simp]: "side_view (workflow_stop e s) = side_view s"
  by (simp add: workflow_stop_def on_workflow_stop_def Let_def)

lemma controller_writeln_side:
  "isOpen (controller_writeln l s) = isOpen s"
  "settings_fb (controller_writeln l s) = settings_fb s"
  "writeln_trace (controller_writeln l s) = writeln_trace s @ [Writeln l]"
  "client_written (controller_writeln l s) =
     (if isOpen s then client_written s @ [l @ [CHR 0x0A]] else client_written s)"
  by (simp_all add: controller_writeln_def controller_write_def log_call_def emit_def
        connection_write_def writeln_trace_def client_written_def)

lemmas stop_side [simp] = side_fields [OF trans [OF sv_workflow_stop sv_event_trigger]]

lemma feeder_next_calls_log_call [simp]:
  "feeder_next_calls (log_call c s) = feeder_next_calls s + (if c = FeederNext then 1 else 0)"
  by (simp add: feeder_next_calls_def log_call_def)

lemma feeder_next_calls_step [simp]:
  "feeder_next_calls (emit name p s) = feeder_next_calls s"
  "feeder_next_calls (connection_write w chunk s) = feeder_next_calls s"
  "feeder_next_calls (feeder_hold r s) = feeder_next_calls s"
  "feeder_next_calls (feeder_reset s) = feeder_next_calls s"
  by (simp_all add: emit_def connection_write_def feeder_hold_def feeder_reset_def Let_def
        feeder_next_calls_def log_call_def)

lemma feeder_next_calls_update [simp]:
  "feeder_next_calls (s\<lparr>workflow := x0\<rparr>) = feeder_next_calls s"
  "feeder_next_calls (s\<lparr>blocked := x1\<rparr>) = feeder_next_calls s"
  "feeder_next_calls (s\<lparr>senderStatus := x2\<rparr>) = feeder_next_calls s"
  "feeder_next_calls (s\<lparr>ready := x3\<rparr>) = feeder_next_calls s"
  "feeder_next_calls (s\<lparr>isOpen := x4\<rparr>) = feeder_next_calls s"
  "feeder_next_calls (s\<lparr>sr := x5\<rparr>) = feeder_next_calls s"
  "feeder_next_calls (s\<lparr>senderFinishTime := x6\<rparr>) = feeder_next_calls s"
  "feeder_next_calls (s\<lparr>settings_fb := x7\<rparr>) = feeder_next_calls s"
  "feeder_next_calls (s\<lparr>state_qr := x8\<rparr>) = feeder_next_calls s"
  "feeder_next_calls (s\<lparr>state_mt := x9\<rparr>) = feeder_next_calls s"
  "feeder_next_calls (s\<lparr>s_lines := x10\<rparr>) = feeder_next_calls s"
  "feeder_next_calls (s\<lparr>s_total := x11\<rparr>) = feeder_next_calls s"
  "feeder_next_calls (s\<lparr>s_sent := x12\<rparr>) = feeder_next_calls s"
  "feeder_next_calls (s\<lparr>s_received := x13\<rparr>) = feeder_next_calls s"
  "feeder_next_calls (s\<lparr>s_hold := x14\<rparr>) = feeder_next_calls s"
  "feeder_next_calls (s\<lparr>s_holdReason := x15\<rparr>) = feeder_next_calls s"
  "feeder_next_calls (s\<lparr>f_queue := x16\<rparr>) = feeder_next_calls s"
  "feeder_next_calls (s\<lparr>f_hold := x17\<rparr>) = feeder_next_calls s"
  "feeder_next_calls (s\<lparr>f_holdReason := x18\<rparr>) = feeder_next_calls s"
  "feeder_next_calls (s\<lparr>f_pending := x19\<rparr>) = feeder_next_calls s"
  "feeder_next_calls (s\<lparr>runner_plannerBufferPoolSize := x20\<rparr>) = feeder_next_calls s"
  "feeder_next_calls (s\<lparr>runner_isAlarm := x21\<rparr>) = feeder_next_calls s"
  "feeder_next_calls (s\<lparr>runner_mfo := x22\<rparr>) = feeder_next_calls s"
  "feeder_next_calls (s\<lparr>runner_sso := x23\<rparr>) = feeder_next_calls s"
  "feeder_next_calls (s\<lparr>ctx := x24\<rparr>) = feeder_next_calls s"
  "feeder_next_calls (s\<lparr>clock := x25\<rparr>) = feeder_next_calls s"
  "feeder_next_calls (s\<lparr>written := x26\<rparr>) = feeder_next_calls s"
  by (simp_all add: feeder_next_calls_def)

lemma feeder_next_calls_dataFilter [simp]:
  "feeder_next_calls (snd (feeder_dataFilter e line s)) = feeder_next_calls s"
  by (simp add: feeder_dataFilter_def Let_def)

lemma feeder_next_calls_on_data [simp]:
  "feeder_next_calls (feeder_on_data line s) = feeder_next_calls s"
  by (simp add: feeder_on_data_def Let_def)

lemma feeder_next_calls_feeder_next [simp]:
  "feeder_next_calls (feeder_next e s) = feeder_next_calls s + 1"
  by (simp add: feeder_next_def Let_def split_beta split: list.split)

lemma error_broadcasts_emit:
  "error_broadcasts (emit name p s) =
     (if is_error_broadcast (Emit name p) then error_broadcasts s @ [Emit name p]
      else error_broadcasts s)"
  by (simp add: emit_def log_call_def error_broadcasts_def)

lemmas feeder_next_side [simp] = side_fields [OF sv_feeder_next]

subsection \<open>Hold and release\<close>

lemma sender_unhold_fields [simp]:
  "s_sent (sender_unhold s) = s_sent s"
  "s_received (sender_unhold s) = s_received s"
  "s_total (sender_unhold s) = s_total s"
  "s_hold (sender_unhold s) = False"
  "blocked (sender_unhold s) = blocked s"
  "workflow (sender_unhold s) = workflow s"
  "isOpen (sender_unhold s) = isOpen s"
  "s_lines (sender_unhold s) = s_lines s"
  "senderStatus (sender_unhold s) = senderStatus s"
  "flow_trace (sender_unhold s) = flow_trace s @ [SenderUnhold]"
  "sender_written (sender_unhold s) = sender_written s"
  by (simp_all add: sender_unhold_def Let_def log_call_def flow_trace_def sender_written_def)

lemma sender_dataFilter_wait:
  "trim (remove_comments line) = WAIT \<Longrightarrow>
     sender_dataFilter e line s = (''G4 P0.5'', sender_hold (Some (ReasonData WAIT)) s)"
  by (simp add: sender_dataFilter_def Let_def WAIT_def)

lemma feeder_dataFilter_wait:
  "trim (remove_comments line) = WAIT \<Longrightarrow>
     feeder_dataFilter e line s = (''G4 P0.5'', feeder_hold (ReasonData WAIT) s)"
  by (simp add: feeder_dataFilter_def Let_def WAIT_def)

lemma on_qr_release:
  assumes "workflow s = WORKFLOW_STATE_RUNNING" "senderStatus s = SENDER_STATUS_NEXT"
    "s_hold s" "s_received s \<ge> s_sent s" "q \<ge> runner_plannerBufferPoolSize s"
    "q > LOW_WATER_MARK e"
  shows "on_qr e q s =
           set_senderStatus SENDER_STATUS_NEXT
             (sender_next e (sender_unhold
                (if q \<ge> HIGH_WATER_MARK e then s\<lparr>state_qr := Some q, blocked := False\<rparr>
                 else s\<lparr>state_qr := Some q\<rparr>)))"
  using assms by (simp add: on_qr_def Let_def)

lemmas event_trigger_fields [simp] = view_fields [OF view_event_trigger]
lemmas controller_writeln_fields [simp] = view_fields [OF view_controller_writeln]
lemmas feeder_reset_fields [simp] = view_fields [OF view_feeder_reset]
lemmas emit_fields [simp] = view_fields [OF view_emit]
lemmas workflow_pause_fields [simp] = counter_fields [OF cv_workflow_pause]

lemma workflow_pause_taken:
  "workflow_enabled e WorkflowPause (workflow s) \<Longrightarrow>
     workflow (workflow_pause e r s) = WORKFLOW_STATE_PAUSED \<and> s_hold (workflow_pause e r s)"
  by (simp add: workflow_pause_def on_workflow_pause_def Let_def log_call_def emit_def)

lemma workflow_resume_taken:
  "workflow_enabled e WorkflowResume (workflow s) \<Longrightarrow>
     workflow_resume e s =
       sender_next e (sender_unhold (feeder_reset
         (emit ''workflow:state'' (StatePayload WORKFLOW_STATE_RUNNING)
            ((log_call (Workflow WorkflowResume None) s)\<lparr>workflow := WORKFLOW_STATE_RUNNING\<rparr>))))"
  by (simp add: workflow_resume_def on_workflow_resume_def Let_def log_call_def)

subsection \<open>The invariant of the Sender\<close>

lemma inv_view: "sender_view s' = sender_view s \<Longrightarrow> sender_inv s' = sender_inv s"
  by (simp add: sender_view_def sender_inv_def paused_holds_def)

lemma recv_view: "sender_view s' = sender_view s \<Longrightarrow> recv_ok s' = recv_ok s"
  by (simp add: sender_view_def recv_ok_def)

lemmas inv_side [simp] =
  inv_view [OF view_log_call] inv_view [OF view_emit] inv_view [OF view_connection_write]
  inv_view [OF view_controller_write] inv_view [OF view_controller_writeln]
  inv_view [OF view_feeder_hold] inv_view [OF view_feeder_unhold] inv_view [OF view_feeder_reset]
  inv_view [OF view_feeder_feed] inv_view [OF view_feeder_next] inv_view [OF view_command_gcode]
  inv_view [OF view_event_trigger] inv_view [OF view_send] inv_view [OF view_initController]
  inv_view [OF view_f_update(1)] inv_view [OF view_f_update(2)] inv_view [OF view_f_update(3)]
  inv_view [OF view_f_update(4)] inv_view [OF view_f_update(5)] inv_view [OF view_f_update(6)]
  inv_view [OF view_f_update(7)] inv_view [OF view_f_update(8)] inv_view [OF view_f_update(9)]

lemmas recv_side [simp] =
  recv_view [OF view_log_call] recv_view [OF view_emit] recv_view [OF view_connection_write]
  recv_view [OF view_controller_write] recv_view [OF view_controller_writeln]
  recv_view [OF view_feeder_hold] recv_view [OF view_feeder_unhold] recv_view [OF view_feeder_reset]
  recv_view [OF view_feeder_feed] recv_view [OF view_feeder_next] recv_view [OF view_command_gcode]
  recv_view [OF view_event_trigger] recv_view [OF view_send] recv_view [OF view_initController]
  recv_view [OF view_f_update(1)] recv_view [OF view_f_update(2)] recv_view [OF view_f_update(3)]
  recv_view [OF view_f_update(4)] recv_view [OF view_f_update(5)] recv_view [OF view_f_update(6)]
  recv_view [OF view_f_update(7)] recv_view [OF view_f_update(8)] recv_view [OF view_f_update(9)]

lemma inv_more_updates [simp]:
  "sender_inv (s\<lparr>blocked := b\<rparr>) = sender_inv s"
  "sender_inv (s\<lparr>isOpen := b\<rparr>) = sender_inv s"
  "sender_inv (s\<lparr>runner_plannerBufferPoolSize := n\<rparr>) = sender_inv s"
  "sender_inv (s\<lparr>runner_isAlarm := b\<rparr>) = sender_inv s"
  "sender_inv (s\<lparr>settings_fb := x, runner_mfo := y, runner_sso := z, state_mt := w\<rparr>) = sender_inv s"
  "sender_inv (s\<lparr>clock := t\<rparr>) = sender_inv s"
  "recv_ok (s\<lparr>blocked := b\<rparr>) = recv_ok s"
  "recv_ok (s\<lparr>isOpen := b\<rparr>) = recv_ok s"
  "recv_ok (s\<lparr>runner_plannerBufferPoolSize := n\<rparr>) = recv_ok s"
  "recv_ok (s\<lparr>runner_isAlarm := b\<rparr>) = recv_ok s"
  "recv_ok (s\<lparr>settings_fb := x, runner_mfo := y, runner_sso := z, state_mt := w\<rparr>) = recv_ok s"
  "recv_ok (s\<lparr>clock := t\<rparr>) = recv_ok s"
  "recv_ok (s\<lparr>workflow := w0\<rparr>) = recv_ok s"
  by (simp_all add: sender_inv_def paused_holds_def recv_ok_def)

lemma log_call_fields [simp]:
  "workflow (log_call c s) = workflow s"
  "blocked (log_call c s) = blocked s"
  "senderStatus (log_call c s) = senderStatus s"
  "ready (log_call c s) = ready s"
  "isOpen (log_call c s) = isOpen s"
  "sr (log_call c s) = sr s"
  "senderFinishTime (log_call c s) = senderFinishTime s"
  "settings_fb (log_call c s) = settings_fb s"
  "state_qr (log_call c s) = state_qr s"
  "state_mt (log_call c s) = state_mt s"
  "s_lines (log_call c s) = s_lines s"
  "s_total (log_call c s) = s_total s"
  "s_sent (log_call c s) = s_sent s"
  "s_received (log_call c s) = s_received s"
  "s_hold (log_call c s) = s_hold s"
  "s_holdReason (log_call c s) = s_holdReason s"
  "f_queue (log_call c s) = f_queue s"
  "f_hold (log_call c s) = f_hold s"
  "f_holdReason (log_call c s) = f_holdReason s"
  "f_pending (log_call c s) = f_pending s"
  "runner_plannerBufferPoolSize (log_call c s) = runner_plannerBufferPoolSize s"
  "runner_isAlarm (log_call c s) = runner_isAlarm s"
  "runner_mfo (log_call c s) = runner_mfo s"
  "runner_sso (log_call c s) = runner_sso s"
  "ctx (log_call c s) = ctx s"
  "clock (log_call c s) = clock s"
  "written (log_call c s) = written s"
  by (simp_all add: log_call_def)

lemma inv_workflow_update [simp]:
  "sender_inv s \<Longrightarrow> w0 \<noteq> WORKFLOW_STATE_PAUSED \<Longrightarrow> sender_inv (s\<lparr>workflow := w0\<rparr>)"
  by (simp add: sender_inv_def paused_holds_def)

lemma inv_sender_ops [simp]:
  "sender_inv (sender_ack s) = sender_inv s"
  "sender_inv (set_senderStatus v s) = sender_inv s"
  "sender_inv s \<Longrightarrow> sender_inv (sender_hold r s)"
  "sender_inv s \<Longrightarrow> workflow s \<noteq> WORKFLOW_STATE_PAUSED \<Longrightarrow> sender_inv (sender_unhold s)"
  "workflow s \<noteq> WORKFLOW_STATE_PAUSED \<Longrightarrow> sender_inv (sender_rewind s)"
  "sender_inv s \<Longrightarrow> sender_inv (snd (sender_load content s))"
  "sender_inv s \<Longrightarrow> sender_inv (sender_unload s)"
  by (simp_all add: sender_inv_def paused_holds_def sender_hold_def sender_unhold_def
        sender_rewind_def sender_load_def sender_unload_def Let_def log_call_def)

lemma recv_sender_ops [simp]:
  "recv_ok s \<Longrightarrow> recv_ok (sender_ack s)"
  "recv_ok (set_senderStatus v s) = recv_ok s"
  "recv_ok (sender_hold r s) = recv_ok s"
  "recv_ok (sender_unhold s) = recv_ok s"
  "recv_ok (sender_rewind s)"
  "recv_ok s \<Longrightarrow> recv_ok (snd (sender_load content s))"
  "recv_ok (sender_unload s)"
  by (simp_all add: recv_ok_def sender_hold_def sender_unhold_def
        sender_rewind_def sender_load_def sender_unload_def Let_def log_call_def)

lemma inv_sender_next [simp]: "sender_inv s \<Longrightarrow> sender_inv (sender_next e s)"
  using paused_sender_next [of s e] by (auto simp add: sender_inv_def)

lemma recv_sender_next [simp]: "recv_ok s \<Longrightarrow> recv_ok (sender_next e s)"
  by (simp add: recv_ok_def)

lemma inv_workflow_pause [simp]: "sender_inv s \<Longrightarrow> sender_inv (workflow_pause e r s)"
  using paused_workflow_pause [of s e r] by (simp add: sender_inv_def)

lemma recv_workflow_pause [simp]: "recv_ok (workflow_pause e r s) = recv_ok s"
  by (simp add: recv_ok_def)

lemma workflow_set_senderStatus_emit [simp]:
  "workflow (emit name p s) = workflow s"
  by (simp add: emit_def log_call_def)

lemma inv_workflow_start [simp]: "sender_inv s \<Longrightarrow> sender_inv (workflow_start e s)"
  by (simp add: workflow_start_def on_workflow_start_def Let_def)

lemma inv_workflow_stop [simp]: "sender_inv s \<Longrightarrow> sender_inv (workflow_stop e s)"
  by (simp add: workflow_stop_def on_workflow_stop_def Let_def)

lemma inv_workflow_resume [simp]: "sender_inv s \<Longrightarrow> sender_inv (workflow_resume e s)"
  by (simp add: workflow_resume_def on_workflow_resume_def Let_def)

lemma recv_workflow_start [simp]: "recv_ok s \<Longrightarrow> recv_ok (workflow_start e s)"
  by (simp add: workflow_start_def on_workflow_start_def Let_def)

lemma recv_workflow_stop [simp]: "recv_ok s \<Longrightarrow> recv_ok (workflow_stop e s)"
  by (simp add: workflow_stop_def on_workflow_stop_def Let_def)

lemma recv_workflow_resume [simp]: "recv_ok s \<Longrightarrow> recv_ok (workflow_resume e s)"
  by (simp add: workflow_resume_def on_workflow_resume_def Let_def)


lemma inv_probed [simp]: "sender_inv (probed r s) = sender_inv s"
  by (simp add: probed_def clear_if_null_def)

lemma recv_probed [simp]: "recv_ok (probed r s) = recv_ok s"
  by (simp add: probed_def clear_if_null_def)

lemma probed_fields [simp]:
  "workflow (probed r s) = workflow s" "blocked (probed r s) = blocked s"
  "s_sent (probed r s) = s_sent s" "s_received (probed r s) = s_received s"
  "s_hold (probed r s) = s_hold s" "s_total (probed r s) = s_total s"
  "senderStatus (probed r s) = senderStatus s"
  "sender_written (probed r s) = sender_written s"
  by (simp_all add: probed_def)

lemma inv_on_r [simp]: "sender_inv s \<Longrightarrow> sender_inv (on_r e r s)"
  by (simp add: on_r_def Let_def)

lemma inv_on_qr [simp]: "sender_inv s \<Longrightarrow> sender_inv (on_qr e q s)"
  by (simp add: on_qr_def Let_def)

lemma inv_on_f [simp]: "sender_inv s \<Longrightarrow> sender_inv (on_f e f s)"
  by (simp add: on_f_def Let_def)

lemma inv_on_raw [simp]: "sender_inv s \<Longrightarrow> sender_inv (on_raw raw s)"
  by (simp add: on_raw_def)

lemma recv_on_f [simp]: "recv_ok s \<Longrightarrow> recv_ok (on_f e f s)"
  by (simp add: on_f_def Let_def)

lemma recv_on_raw [simp]: "recv_ok s \<Longrightarrow> recv_ok (on_raw raw s)"
  by (simp add: on_raw_def)

lemma recv_on_r [simp]: "recv_ok s \<Longrightarrow> recv_ok (on_r e r s)"
  by (simp add: on_r_def Let_def)

lemma recv_on_qr [simp]: "recv_ok s \<Longrightarrow> recv_ok (on_qr e q s)"
  by (simp add: on_qr_def Let_def)

lemma inv_command_sender_load [simp]:
  "sender_inv s \<Longrightarrow> sender_inv (command_sender_load e name content s)"
  by (simp add: command_sender_load_def Let_def split_beta)

lemma recv_command_sender_load [simp]:
  "recv_ok s \<Longrightarrow> recv_ok (command_sender_load e name content s)"
  by (simp add: command_sender_load_def Let_def split_beta)

lemma inv_command [simp]: "sender_inv s \<Longrightarrow> sender_inv (command e c s)"
  by (cases c)
    (simp_all add: command_sender_unload_def command_sender_start_def command_sender_stop_def
       command_sender_pause_def command_sender_resume_def command_feeder_start_def
       command_feeder_stop_def command_feedhold_def command_cyclestart_def command_homing_def
       command_sleep_def command_unlock_def command_reset_def command_override_feed_def
       command_override_spindle_def command_override_rapid_def command_motor_enable_def
       command_motor_disable_def command_motor_timeout_def command_lasertest_def
       command_macro_run_def command_macro_load_def command_watchdir_load_def Let_def
       split: option.split)

lemma recv_command [simp]: "recv_ok s \<Longrightarrow> recv_ok (command e c s)"
  by (cases c)
    (simp_all add: command_sender_unload_def command_sender_start_def command_sender_stop_def
       command_sender_pause_def command_sender_resume_def command_feeder_start_def
       command_feeder_stop_def command_feedhold_def command_cyclestart_def command_homing_def
       command_sleep_def command_unlock_def command_reset_def command_override_feed_def
       command_override_spindle_def command_override_rapid_def command_motor_enable_def
       command_motor_disable_def command_motor_timeout_def command_lasertest_def
       command_macro_run_def command_macro_load_def command_watchdir_load_def Let_def
       split: option.split)

lemma inv_step: "sender_inv s \<Longrightarrow> sender_inv (step e ev s)"
proof (cases ev)
  case (WORKFLOW t r)
  assume "sender_inv s"
  then show ?thesis using WORKFLOW by (cases t) simp_all
qed (simp_all add: connection_opened_def controller_ready_def connection_closed_def
       connection_error_def)

lemma inv_run: "sender_inv s \<Longrightarrow> sender_inv (run e evs s)"
  by (induction evs arbitrary: s) (simp_all add: inv_step)

lemma inv_initial: "sender_inv initial"
  by (simp add: sender_inv_def paused_holds_def initial_def)

lemma recv_step: "recv_ok s \<Longrightarrow> recv_ok (step e ev s)"
proof (cases ev)
  case (WORKFLOW t r)
  assume "recv_ok s"
  then show ?thesis using WORKFLOW by (cases t) simp_all
qed (simp_all add: connection_opened_def controller_ready_def connection_closed_def
       connection_error_def)

lemma recv_run: "recv_ok s \<Longrightarrow> recv_ok (run e evs s)"
  by (induction evs arbitrary: s) (simp_all add: recv_step)

lemma recv_initial: "recv_ok initial"
  by (simp add: recv_ok_def initial_def)


lemmas feeder_next_fields [simp] = view_fields [OF view_feeder_next]

subsection \<open>The status report mask\<close>

lemma replace_true_other [simp]:
  "c \<noteq> CHR ''t'' \<Longrightarrow> replace_true (c # cs) = c # replace_true cs"
  by auto

lemma replace_true_key:
  "k \<in> set sr_fields \<Longrightarrow>
     replace_true (k @ '':true'' @ rest) = k @ '':t'' @ replace_true rest"
  unfolding sr_fields_def by (elim set_ConsD [elim_format] disjE) simp_all


lemma unquoted_key:
  "k \<in> set sr_fields \<Longrightarrow> filter (\<lambda>c. c \<noteq> CHR 0x22) k = k"
  unfolding sr_fields_def by (elim set_ConsD [elim_format] disjE) simp_all

lemma relaxed_members:
  "set ks \<subseteq> set sr_fields \<Longrightarrow>
     replace_true (filter (\<lambda>c. c \<noteq> CHR 0x22)
        (join_commas (map (\<lambda>k. stringify_member (k, True)) ks)) @ ''}}'')
       = join_commas (map (\<lambda>k. k @ '':t'') ks) @ ''}}''"
proof (induction ks rule: join_commas.induct)
  case 1
  show ?case by simp
next
  case (2 k)
  then have "k \<in> set sr_fields" by simp
  then show ?case
    using replace_true_key [of k "''}}''"] by (simp add: stringify_member_def unquoted_key)
next
  case (3 k k' ks)
  then have k: "k \<in> set sr_fields" and r: "set (k' # ks) \<subseteq> set sr_fields"
    by simp_all
  have "replace_true (filter (\<lambda>c. c \<noteq> CHR 0x22)
          (join_commas (map (\<lambda>k. stringify_member (k, True)) (k # k' # ks))) @ ''}}'')
        = replace_true (k @ '':true'' @ ('','' @ filter (\<lambda>c. c \<noteq> CHR 0x22)
            (join_commas (map (\<lambda>k. stringify_member (k, True)) (k' # ks))) @ ''}}''))"
    using k by (simp add: stringify_member_def unquoted_key)
  also have "\<dots> = k @ '':t'' @ replace_true ('','' @ filter (\<lambda>c. c \<noteq> CHR 0x22)
            (join_commas (map (\<lambda>k. stringify_member (k, True)) (k' # ks))) @ ''}}'')"
    using k by (rule replace_true_key)
  also have "\<dots> = k @ '':t'' @ '','' @ join_commas (map (\<lambda>k. k @ '':t'') (k' # ks)) @ ''}}''"
    using "3.IH" [OF r] by simp
  finally show ?case by simp
qed

lemma members_of_picked:
  "map stringify_member (pickBy_value m) = map (\<lambda>k. stringify_member (k, True)) (map fst (filter snd m))"
  by (induction m) (auto simp add: pickBy_value_def)

lemma relaxed_mask:
  assumes "fst ` set m \<subseteq> set sr_fields"
  shows "relaxedJSON (stringify_sr (pickBy_value m)) = mask_command m"
proof -
  have ks: "set (map fst (filter snd m)) \<subseteq> set sr_fields"
    using assms by auto
  show ?thesis
    using relaxed_members [OF ks]
    by (simp add: relaxedJSON_def stringify_sr_def members_of_picked mask_command_def)
qed


lemma sr_prims [simp]:
  "sr (log_call c s) = sr s"
  "sr (emit name p s) = sr s"
  "sr (connection_write w chunk s) = sr s"
  "sr (set_senderStatus v s) = sr s"
  "sr (controller_write chunk s) = sr s"
  "sr (controller_writeln chunk s) = sr s"
  "sr (sender_hold rr s) = sr s"
  "sr (sender_unhold s) = sr s"
  "sr (sender_rewind s) = sr s"
  "sr (sender_ack s) = sr s"
  "sr (sender_unload s) = sr s"
  "sr (snd (sender_load content s)) = sr s"
  "sr (feeder_hold r' s) = sr s"
  "sr (feeder_unhold s) = sr s"
  "sr (feeder_reset s) = sr s"
  "sr (feeder_feed ls s) = sr s"
  by (simp_all add: log_call_def emit_def connection_write_def set_senderStatus_def
        controller_write_def controller_writeln_def sender_hold_def sender_unhold_def
        sender_rewind_def sender_ack_def on_sender_end_def sender_unload_def sender_load_def
        feeder_hold_def feeder_unhold_def feeder_reset_def feeder_feed_def Let_def)

lemma sr_workflow_pause [simp]: "sr (workflow_pause e r s) = sr s"
  by (simp add: workflow_pause_def on_workflow_pause_def Let_def)

lemma sr_sender_dataFilter [simp]: "sr (snd (sender_dataFilter e line s)) = sr s"
  by (simp add: sender_dataFilter_def Let_def)

lemma sr_sender_on_data [simp]: "sr (sender_on_data line s) = sr s"
  by (simp add: sender_on_data_def Let_def)

lemma sr_sender_next [simp]: "sr (sender_next e s) = sr s"
  by (simp add: sender_next_def Let_def split_beta)

lemma sr_feeder_dataFilter [simp]: "sr (snd (feeder_dataFilter e line s)) = sr s"
  by (simp add: feeder_dataFilter_def Let_def)

lemma sr_feeder_on_data [simp]: "sr (feeder_on_data line s) = sr s"
  by (simp add: feeder_on_data_def Let_def)

lemma sr_feeder_next [simp]: "sr (feeder_next e s) = sr s"
  by (simp add: feeder_next_def Let_def split_beta split: list.split)

lemma sr_command_gcode [simp]: "sr (command_gcode e commands s) = sr s"
  by (simp add: command_gcode_def Let_def)

lemma sr_event_trigger [simp]: "sr (event_trigger e name s) = sr s"
  by (simp add: event_trigger_def Let_def split: option.split)

lemma sr_workflow [simp]:
  "sr (workflow_start e s) = sr s"
  "sr (workflow_stop e s) = sr s"
  "sr (workflow_resume e s) = sr s"
  by (simp_all add: workflow_start_def on_workflow_start_def workflow_stop_def
        on_workflow_stop_def workflow_resume_def on_workflow_resume_def Let_def)

lemma sr_send [simp]: "sr (send e c s) = sr s"
  by (simp add: send_def)

lemma sr_initController [simp]: "sr (initController e n s) = sr s"
  by (simp add: initController_def)

lemma sr_on_r: "sr (on_r e r s) = sr (probed r s)"
  by (simp add: on_r_def Let_def)

lemma sr_on_qr [simp]: "sr (on_qr e q s) = sr s"
  by (simp add: on_qr_def Let_def)

lemma sr_on_f [simp]: "sr (on_f e f s) = sr s"
  by (simp add: on_f_def Let_def)

lemma sr_command_sender_load [simp]: "sr (command_sender_load e name content s) = sr s"
  by (simp add: command_sender_load_def Let_def split_beta)

lemma sr_command [simp]: "sr (command e c s) = sr s"
  by (cases c)
    (simp_all add: command_sender_unload_def command_sender_start_def command_sender_stop_def
       command_sender_pause_def command_sender_resume_def command_feeder_start_def
       command_feeder_stop_def command_feedhold_def command_cyclestart_def command_homing_def
       command_sleep_def command_unlock_def command_reset_def command_override_feed_def
       command_override_spindle_def command_override_rapid_def command_motor_enable_def
       command_motor_disable_def command_motor_timeout_def command_lasertest_def
       command_macro_run_def command_macro_load_def command_watchdir_load_def Let_def
       split: option.split)

lemma keys_set_flag: "k \<in> set (map fst m) \<Longrightarrow> map fst (set_flag k v m) = map fst m"
  by (induction m) force+

lemma map_of_set_flag: "map_of (set_flag k v m) = (map_of m)(k \<mapsto> v)"
  by (induction m) (auto simp add: fun_eq_iff)

lemma keys_probed: "map fst (sr s) = sr_fields \<Longrightarrow> map fst (sr (probed r s)) = sr_fields"
  by (simp add: probed_def clear_if_null_def keys_set_flag sr_fields_def)

lemma null_probed:
  "is_null r k \<Longrightarrow> k \<in> set probe_fields \<Longrightarrow> map_of (sr (probed r s)) k = Some False"
  by (auto simp add: probe_fields_def probed_def clear_if_null_def map_of_set_flag)

lemma cleared_probed:
  "map_of (sr s) k = Some False \<Longrightarrow> map_of (sr (probed r s)) k = Some False"
  by (auto simp add: probed_def clear_if_null_def map_of_set_flag)

lemma keys_step: "map fst (sr s) = sr_fields \<Longrightarrow> map fst (sr (step e ev s)) = sr_fields"
proof (cases ev)
  case (FRAME_R r)
  assume "map fst (sr s) = sr_fields"
  then show ?thesis using FRAME_R by (simp add: sr_on_r keys_probed)
next
  case (WORKFLOW t r)
  assume "map fst (sr s) = sr_fields"
  then show ?thesis using WORKFLOW by (cases t) simp_all
qed (simp_all add: on_raw_def connection_opened_def controller_ready_def connection_closed_def
       connection_error_def)

lemma keys_run: "map fst (sr s) = sr_fields \<Longrightarrow> map fst (sr (run e evs s)) = sr_fields"
  by (induction evs arbitrary: s) (simp_all add: keys_step)

lemma keys_initial: "map fst (sr initial) = sr_fields"
  by (simp add: initial_def comp_def)

lemma cleared_step:
  "map_of (sr s) k = Some False \<Longrightarrow> map_of (sr (step e ev s)) k = Some False"
proof (cases ev)
  case (FRAME_R r)
  assume "map_of (sr s) k = Some False"
  then show ?thesis using FRAME_R by (simp add: sr_on_r cleared_probed)
next
  case (WORKFLOW t r)
  assume "map_of (sr s) k = Some False"
  then show ?thesis using WORKFLOW by (cases t) simp_all
qed (simp_all add: on_raw_def connection_opened_def controller_ready_def connection_closed_def
       connection_error_def)

section \<open>The claims\<close>

text \<open>
  C1 (as amended). An \<open>r\<close> frame handled while the workflow is running and
  \<open>blocked\<close> is false sets \<open>senderStatus\<close> to \<open>ack\<close>, calls
  \<open>sender.ack()\<close>, then \<open>sender.next()\<close>, and sets \<open>senderStatus\<close> to \<open>next\<close>.
  In particular, from \<open>sent = 5\<close>, \<open>received = 4\<close>, with the Sender not held and
  a further line to send, the frame yields \<open>sent = 6\<close>, \<open>received = 5\<close>,
  \<open>senderStatus = next\<close>.
\<close>

theorem ack_gating:
  assumes "workflow s = WORKFLOW_STATE_RUNNING" and "\<not> blocked s"
  shows "flow_trace (on_r e r s) =
           flow_trace s @ [SetSenderStatus SENDER_STATUS_ACK, SenderAck, SenderNext,
                           SetSenderStatus SENDER_STATUS_NEXT]
         \<and> senderStatus (on_r e r s) = SENDER_STATUS_NEXT
         \<and> (s_sent s = 5 \<and> s_received s = 4 \<and> \<not> s_hold s \<and> 5 < s_total s \<longrightarrow>
              s_sent (on_r e r s) = 6 \<and> s_received (on_r e r s) = 5)"
  using assms by (simp add: on_r_running probed_def)

theorem ack_gating_witness:
  "workflow ack_state = WORKFLOW_STATE_RUNNING \<and> \<not> blocked ack_state
   \<and> s_sent ack_state = 5 \<and> s_received ack_state = 4
   \<and> senderStatus (on_r scenario_env (r_n 5) ack_state) = SENDER_STATUS_NEXT
   \<and> s_sent (on_r scenario_env (r_n 5) ack_state) = 6
   \<and> s_received (on_r scenario_env (r_n 5) ack_state) = 5"
  using ack_gating [of ack_state scenario_env "r_n 5"]
  by (simp add: ack_state_def initial_def)

theorem ack_gating_counterexample:
  "workflow held_state = WORKFLOW_STATE_RUNNING \<and> \<not> blocked held_state
   \<and> s_sent held_state = 5 \<and> s_received held_state = 4
   \<and> s_sent (on_r scenario_env (r_n 5) held_state) = 5"
  by code_simp

text \<open>
  C2 (as amended). In every reachable state with \<open>blocked\<close> set, an \<open>r\<close> frame
  makes the Sender transmit nothing and leaves \<open>sent\<close> as it is, and so does a
  \<open>qr\<close> frame with \<open>q\<close> at or below the low water mark, which keeps \<open>blocked\<close>
  set.
\<close>

theorem blocked_no_transmission:
  assumes "blocked (run e evs initial)"
  shows "sender_written (on_r e r (run e evs initial)) = sender_written (run e evs initial)
         \<and> s_sent (on_r e r (run e evs initial)) = s_sent (run e evs initial)
         \<and> (q \<le> LOW_WATER_MARK e \<longrightarrow>
              sender_written (on_qr e q (run e evs initial)) = sender_written (run e evs initial)
              \<and> s_sent (on_qr e q (run e evs initial)) = s_sent (run e evs initial)
              \<and> blocked (on_qr e q (run e evs initial)))"
proof -
  define s where "s = run e evs initial"
  have "sender_inv s"
    unfolding s_def by (rule inv_run) (rule inv_initial)
  then have p: "workflow s = WORKFLOW_STATE_PAUSED \<longrightarrow> s_hold s"
    by (simp add: sender_inv_def paused_holds_def)
  have b: "blocked s"
    using assms by (simp add: s_def)
  have r1: "sender_written (on_r e r s) = sender_written s"
    using p b by (simp add: on_r_def Let_def sender_next_held)
  have r2: "s_sent (on_r e r s) = s_sent s"
    using p b by (simp add: on_r_def Let_def)
  have q1: "q \<le> LOW_WATER_MARK e \<longrightarrow>
              sender_written (on_qr e q s) = sender_written s
              \<and> s_sent (on_qr e q s) = s_sent s \<and> blocked (on_qr e q s)"
    by (simp add: on_qr_def Let_def)
  show ?thesis
    using r1 r2 q1 by (simp add: s_def)
qed

theorem blocked_no_transmission_witness:
  "blocked (run scenario_env blocked_events initial)
   \<and> length (sender_written (run scenario_env blocked_events initial)) = 1
   \<and> length (sender_written (on_r scenario_env (r_n 1) (run scenario_env blocked_events initial))) = 1
   \<and> 4 \<le> LOW_WATER_MARK scenario_env
   \<and> length (sender_written (on_qr scenario_env 4 (run scenario_env blocked_events initial))) = 1"
proof -
  have h: "blocked (run scenario_env blocked_events initial)"
    "length (sender_written (run scenario_env blocked_events initial)) = 1"
    "4 \<le> LOW_WATER_MARK scenario_env"
    by code_simp+
  show ?thesis
    using blocked_no_transmission [OF h(1), of "r_n 1" 4] h by simp
qed

theorem blocked_no_transmission_counterexample:
  "blocked blocked_state
   \<and> LOW_WATER_MARK scenario_env < 10 \<and> 10 < HIGH_WATER_MARK scenario_env
   \<and> blocked (on_qr scenario_env 10 blocked_state)
   \<and> s_sent blocked_state = 1 \<and> length (sender_written blocked_state) = 1
   \<and> s_sent (on_qr scenario_env 10 blocked_state) = 2
   \<and> length (sender_written (on_qr scenario_env 10 blocked_state)) = 2"
  by code_simp

text \<open>
  C3. After every sequence of events, hence after each event of a sequence (its
  first \<open>n\<close> events are a sequence too), the counters of the Sender satisfy
  \<open>0 \<le> received \<le> sent \<le> total\<close>.
\<close>

theorem counters_bounded:
  "0 \<le> s_received (run e (take n evs) initial)
   \<and> s_received (run e (take n evs) initial) \<le> s_sent (run e (take n evs) initial)
   \<and> s_sent (run e (take n evs) initial) \<le> s_total (run e (take n evs) initial)"
proof -
  have "sender_inv (run e (take n evs) initial)"
    by (rule inv_run) (rule inv_initial)
  moreover have "recv_ok (run e (take n evs) initial)"
    by (rule recv_run) (rule recv_initial)
  ultimately show ?thesis
    by (simp add: sender_inv_def recv_ok_def)
qed

theorem counters_bounded_witness:
  "s_received (run scenario_env (take 5 blocked_events) initial)
     \<le> s_sent (run scenario_env (take 5 blocked_events) initial)
   \<and> s_sent (run scenario_env (take 5 blocked_events) initial)
     \<le> s_total (run scenario_env (take 5 blocked_events) initial)
   \<and> s_sent drained_state = 2 \<and> s_received drained_state = 2 \<and> s_total drained_state = 2
   \<and> workflow drained_state = WORKFLOW_STATE_RUNNING
   \<and> s_sent (step scenario_env (FRAME_R (r_n 2)) drained_state) = 2
   \<and> s_received (step scenario_env (FRAME_R (r_n 2)) drained_state) = 2"
proof -
  have d: "s_sent drained_state = 2 \<and> s_received drained_state = 2 \<and> s_total drained_state = 2
   \<and> workflow drained_state = WORKFLOW_STATE_RUNNING
   \<and> s_sent (step scenario_env (FRAME_R (r_n 2)) drained_state) = 2
   \<and> s_received (step scenario_env (FRAME_R (r_n 2)) drained_state) = 2"
    by code_simp
  show ?thesis
    using counters_bounded [of scenario_env 5 blocked_events] d by blast
qed

text \<open>
  C4 (as amended). A line that is \<open>%wait\<close> once its comment is stripped and it is
  trimmed puts the pipeline that pulled it (Sender or Feeder, not held at that moment) on
  hold with the reason \<open>%wait\<close>, and \<open>G4 P0.5\<close> is handed on for transmission in
  its place. The hold of the Sender is released (\<open>unhold\<close>, then \<open>next\<close>) by a
  \<open>qr\<close> frame with \<open>q\<close> above the low water mark and at least the size of the
  planner's pool, while the workflow is running, \<open>senderStatus\<close> is \<open>next\<close>, the
  Sender is held and \<open>received \<ge> sent\<close>.
\<close>

theorem wait_hold:
  "(trim (remove_comments line) = WAIT \<and> \<not> s_hold s \<longrightarrow>
      fst (sender_dataFilter e line s) = ''G4 P0.5''
      \<and> s_hold (snd (sender_dataFilter e line s))
      \<and> s_holdReason (snd (sender_dataFilter e line s)) = Some (ReasonData ''%wait''))
   \<and> (trim (remove_comments line) = WAIT \<and> \<not> f_hold s \<longrightarrow>
      fst (feeder_dataFilter e line s) = ''G4 P0.5''
      \<and> f_hold (snd (feeder_dataFilter e line s))
      \<and> f_holdReason (snd (feeder_dataFilter e line s)) = Some (ReasonData ''%wait''))
   \<and> (\<not> s_hold s \<and> s_sent s < s_total s \<and> s_sent s < length (s_lines s)
       \<and> trim (remove_comments (s_lines s ! s_sent s)) = WAIT \<longrightarrow>
      s_hold (sender_next e s)
      \<and> s_holdReason (sender_next e s) = Some (ReasonData ''%wait'')
      \<and> s_sent (sender_next e s) = s_sent s + 1)
   \<and> (workflow s = WORKFLOW_STATE_RUNNING \<and> senderStatus s = SENDER_STATUS_NEXT
       \<and> s_hold s \<and> s_received s \<ge> s_sent s
       \<and> q \<ge> runner_plannerBufferPoolSize s \<and> q > LOW_WATER_MARK e \<longrightarrow>
      flow_trace (on_qr e q s) =
        flow_trace s @ [SenderUnhold, SenderNext, SetSenderStatus SENDER_STATUS_NEXT]
      \<and> senderStatus (on_qr e q s) = SENDER_STATUS_NEXT
      \<and> s_sent (on_qr e q s) = (if s_sent s = s_total s then s_sent s else s_sent s + 1))"
proof (intro conjI impI)
  assume a: "trim (remove_comments line) = WAIT \<and> \<not> s_hold s"
  show "fst (sender_dataFilter e line s) = ''G4 P0.5''"
    using a by (simp add: sender_dataFilter_wait)
  show "s_hold (snd (sender_dataFilter e line s))"
    using a by (simp add: sender_dataFilter_wait)
  show "s_holdReason (snd (sender_dataFilter e line s)) = Some (ReasonData ''%wait'')"
    using a by (simp add: sender_dataFilter_wait sender_hold_def Let_def log_call_def WAIT_def)
next
  assume a: "trim (remove_comments line) = WAIT \<and> \<not> f_hold s"
  show "fst (feeder_dataFilter e line s) = ''G4 P0.5''"
    using a by (simp add: feeder_dataFilter_wait)
  show "f_hold (snd (feeder_dataFilter e line s))"
    using a by (simp add: feeder_dataFilter_wait feeder_hold_def Let_def log_call_def)
  show "f_holdReason (snd (feeder_dataFilter e line s)) = Some (ReasonData ''%wait'')"
    using a by (simp add: feeder_dataFilter_wait feeder_hold_def Let_def log_call_def WAIT_def)
next
  assume a: "\<not> s_hold s \<and> s_sent s < s_total s \<and> s_sent s < length (s_lines s)
       \<and> trim (remove_comments (s_lines s ! s_sent s)) = WAIT"
  show "s_hold (sender_next e s)"
    using a by (simp add: sender_next_def Let_def log_call_def sender_dataFilter_wait
        sender_hold_def sender_on_data_def connection_write_def)
  show "s_holdReason (sender_next e s) = Some (ReasonData ''%wait'')"
    using a by (simp add: sender_next_def Let_def log_call_def sender_dataFilter_wait
        sender_hold_def sender_on_data_def connection_write_def WAIT_def)
  show "s_sent (sender_next e s) = s_sent s + 1"
    using a by simp
next
  assume a: "workflow s = WORKFLOW_STATE_RUNNING \<and> senderStatus s = SENDER_STATUS_NEXT
       \<and> s_hold s \<and> s_received s \<ge> s_sent s
       \<and> q \<ge> runner_plannerBufferPoolSize s \<and> q > LOW_WATER_MARK e"
  then have r: "on_qr e q s =
           set_senderStatus SENDER_STATUS_NEXT
             (sender_next e (sender_unhold
                (if q \<ge> HIGH_WATER_MARK e then s\<lparr>state_qr := Some q, blocked := False\<rparr>
                 else s\<lparr>state_qr := Some q\<rparr>)))"
    by (simp add: on_qr_release)
  show "flow_trace (on_qr e q s) =
        flow_trace s @ [SenderUnhold, SenderNext, SetSenderStatus SENDER_STATUS_NEXT]"
    unfolding r by simp
  show "senderStatus (on_qr e q s) = SENDER_STATUS_NEXT"
    unfolding r by simp
  show "s_sent (on_qr e q s) = (if s_sent s = s_total s then s_sent s else s_sent s + 1)"
    unfolding r by simp
qed

theorem wait_hold_witness:
  "trim (remove_comments ''%wait ; Wait for the planner to empty'') = WAIT
   \<and> \<not> s_hold open_state \<and> \<not> f_hold open_state
   \<and> fst (sender_dataFilter scenario_env ''%wait ; Wait for the planner to empty'' open_state) = ''G4 P0.5''
   \<and> s_holdReason (snd (sender_dataFilter scenario_env ''%wait ; Wait for the planner to empty'' open_state))
       = Some (ReasonData ''%wait'')
   \<and> fst (feeder_dataFilter scenario_env ''%wait ; Wait for the planner to empty'' open_state) = ''G4 P0.5''
   \<and> f_holdReason (snd (feeder_dataFilter scenario_env ''%wait ; Wait for the planner to empty'' open_state))
       = Some (ReasonData ''%wait'')
   \<and> s_hold (sender_next scenario_env dwell_state)
   \<and> s_sent (sender_next scenario_env dwell_state) = 7
   \<and> workflow drained_state = WORKFLOW_STATE_RUNNING
   \<and> LOW_WATER_MARK scenario_env < 28
   \<and> flow_trace (on_qr scenario_env 28 drained_state) =
       flow_trace drained_state @ [SenderUnhold, SenderNext, SetSenderStatus SENDER_STATUS_NEXT]"
proof -
  have h1: "trim (remove_comments ''%wait ; Wait for the planner to empty'') = WAIT"
    by code_simp
  have h2: "\<not> s_hold open_state" "\<not> f_hold open_state"
    by (simp_all add: open_state_def initial_def)
  have h3: "\<not> s_hold dwell_state \<and> s_sent dwell_state < s_total dwell_state
      \<and> s_sent dwell_state < length (s_lines dwell_state)
      \<and> trim (remove_comments (s_lines dwell_state ! s_sent dwell_state)) = WAIT"
    by code_simp
  have h4: "workflow drained_state = WORKFLOW_STATE_RUNNING
      \<and> senderStatus drained_state = SENDER_STATUS_NEXT
      \<and> s_hold drained_state \<and> s_received drained_state \<ge> s_sent drained_state
      \<and> 28 \<ge> runner_plannerBufferPoolSize drained_state \<and> 28 > LOW_WATER_MARK scenario_env"
    by code_simp
  have d: "s_sent dwell_state = 6"
    by code_simp
  show ?thesis
    using wait_hold [of "''%wait ; Wait for the planner to empty''" open_state scenario_env 28]
      wait_hold [of "''%wait ; Wait for the planner to empty''" dwell_state scenario_env 28]
      wait_hold [of "''%wait ; Wait for the planner to empty''" drained_state scenario_env 28]
      h1 h2 h3 h4 d
    by simp
qed

theorem wait_hold_counterexample:
  "workflow drained_state = WORKFLOW_STATE_RUNNING
   \<and> senderStatus drained_state = SENDER_STATUS_NEXT
   \<and> s_hold drained_state
   \<and> s_sent drained_state \<le> s_received drained_state
   \<and> runner_plannerBufferPoolSize drained_state \<le> 6
   \<and> s_hold (on_qr scenario_env 6 drained_state)
   \<and> flow_trace (on_qr scenario_env 6 drained_state) = flow_trace drained_state"
  by code_simp

text \<open>
  C5 (as amended). The commands \<open>sender:pause\<close> and \<open>sender:resume\<close> in a row,
  both transitions being taken and no frame handled in between, leave \<open>received\<close>
  as it was; \<open>sent\<close> stays as it was only if the last line had been sent, and is
  otherwise one more, since the handler of \<open>resume\<close> calls \<open>sender.next()\<close>.
\<close>

theorem pause_resume_counters:
  assumes "workflow_enabled e WorkflowPause (workflow s)"
    and "workflow_enabled e WorkflowResume WORKFLOW_STATE_PAUSED"
  shows "s_received (command_sender_resume e (command_sender_pause e s)) = s_received s
         \<and> s_sent (command_sender_resume e (command_sender_pause e s)) =
             (if s_sent s = s_total s then s_sent s else s_sent s + 1)"
proof -
  let ?p = "command_sender_pause e s"
  have p: "workflow ?p = WORKFLOW_STATE_PAUSED" "s_sent ?p = s_sent s"
    "s_received ?p = s_received s" "s_total ?p = s_total s"
    using assms(1) by (simp_all add: command_sender_pause_def workflow_pause_taken)
  let ?q = "controller_writeln ''~'' (event_trigger e ''sender:resume'' ?p)"
  have q: "workflow_enabled e WorkflowResume (workflow ?q)" "s_sent ?q = s_sent s"
    "s_received ?q = s_received s" "s_total ?q = s_total s"
    using assms(2) p by simp_all
  show ?thesis
    using q by (simp add: command_sender_resume_def workflow_resume_taken log_call_def)
qed

theorem pause_resume_counters_witness:
  "workflow_enabled scenario_env WorkflowPause (workflow started_state)
   \<and> workflow_enabled scenario_env WorkflowResume WORKFLOW_STATE_PAUSED
   \<and> s_received (command_sender_resume scenario_env (command_sender_pause scenario_env started_state)) = 0
   \<and> s_sent (command_sender_resume scenario_env (command_sender_pause scenario_env started_state)) = 2"
proof -
  have h: "workflow_enabled scenario_env WorkflowPause (workflow started_state)"
    "workflow_enabled scenario_env WorkflowResume WORKFLOW_STATE_PAUSED"
    by (simp_all add: scenario_env_def)
  have v: "s_sent started_state = 1 \<and> s_received started_state = 0 \<and> s_total started_state = 3"
    by code_simp
  show ?thesis
    using pause_resume_counters [OF h] h v by simp
qed

theorem pause_resume_counters_counterexample:
  "s_sent started_state = 1 \<and> s_received started_state = 0
   \<and> length (sender_written started_state) = 1
   \<and> s_sent (run scenario_env [COMMAND SENDER_PAUSE, COMMAND SENDER_RESUME] started_state) = 2
   \<and> length (sender_written
         (run scenario_env [COMMAND SENDER_PAUSE, COMMAND SENDER_RESUME] started_state)) = 2"
  by code_simp

text \<open>
  C6 (as amended). The command \<open>sender:stop\<close> hands to \<^verbatim>\<open>writeln\<close>: with
  \<open>force\<close> and a firmware build of at least 101 the byte \<open>^d\<close>; with a build from
  100 up to 101 the byte \<open>^d\<close>, then \<open>M30\<close>; with an older build \<open>!\<close>, \<open>%\<close>
  and \<open>M30\<close>; and after that in every case, forced or not, the queue report request.
  \<^verbatim>\<open>writeln\<close> ends each of them with a line feed, the byte \<open>^d\<close> too: on an open
  connection the controller writes the two bytes \<open>0x04 0x0A\<close> for it, not the single
  byte \<open>0x04\<close>.
\<close>

theorem sender_stop_writes: \<open>
  writeln_trace (command_sender_stop e force s) =
    writeln_trace s
    @ (if \<not> force then []
       else if settings_fb s \<ge> 101 then [Writeln [CHR 0x04]]
       else if settings_fb s \<ge> 100 then [Writeln [CHR 0x04], Writeln ''M30'']
       else [Writeln ''!'', Writeln ''%'', Writeln ''M30''])
    @ [Writeln ''{"qr":""}'']
  \<and> (isOpen s \<longrightarrow>
       client_written (command_sender_stop e force s) =
         client_written s
         @ (if \<not> force then []
            else if settings_fb s \<ge> 101 then [[CHR 0x04, CHR 0x0A]]
            else if settings_fb s \<ge> 100 then [[CHR 0x04, CHR 0x0A], ''M30'' @ [CHR 0x0A]]
            else [''!'' @ [CHR 0x0A], ''%'' @ [CHR 0x0A], ''M30'' @ [CHR 0x0A]])
         @ [''{"qr":""}'' @ [CHR 0x0A]])\<close>
  by (simp add: command_sender_stop_def Let_def controller_writeln_side)

theorem sender_stop_writes_witness: \<open>
  isOpen (fb_state 101.02)
  \<and> client_written (command_sender_stop scenario_env True (fb_state 101.02)) =
      [[CHR 0x04, CHR 0x0A], ''{"qr":""}'' @ [CHR 0x0A]]
  \<and> client_written (command_sender_stop scenario_env True (fb_state 100)) =
      [[CHR 0x04, CHR 0x0A], ''M30'' @ [CHR 0x0A], ''{"qr":""}'' @ [CHR 0x0A]]
  \<and> client_written (command_sender_stop scenario_env True (fb_state 99)) =
      [''!'' @ [CHR 0x0A], ''%'' @ [CHR 0x0A], ''M30'' @ [CHR 0x0A], ''{"qr":""}'' @ [CHR 0x0A]]
  \<and> client_written (command_sender_stop scenario_env False (fb_state 101.02)) =
      [''{"qr":""}'' @ [CHR 0x0A]]\<close>
  using sender_stop_writes [of scenario_env True "fb_state 101.02"]
    sender_stop_writes [of scenario_env True "fb_state 100"]
    sender_stop_writes [of scenario_env True "fb_state 99"]
    sender_stop_writes [of scenario_env False "fb_state 101.02"]
  by (simp add: fb_state_def initial_def client_written_def)

theorem sender_stop_writes_counterexample: \<open>
  isOpen (fb_state 101.02) \<and> 101 \<le> settings_fb (fb_state 101.02)
  \<and> client_written (fb_state 101.02) = []
  \<and> hd (client_written (command_sender_stop scenario_env True (fb_state 101.02))) =
      [CHR 0x04, CHR 0x0A]
  \<and> length (hd (client_written (command_sender_stop scenario_env True (fb_state 101.02)))) = 2
  \<and> concat (client_written (command_sender_stop scenario_env True (fb_state 100))) =
      [CHR 0x04, CHR 0x0A] @ ''M30'' @ [CHR 0x0A] @ ''{"qr":""}'' @ [CHR 0x0A]\<close>
proof -
  have f: "\<And>fb. isOpen (fb_state fb)" "\<And>fb. settings_fb (fb_state fb) = fb"
    "\<And>fb. client_written (fb_state fb) = []"
    by (simp_all add: fb_state_def initial_def client_written_def)
  show ?thesis
    by (simp add: command_sender_stop_def Let_def controller_writeln_side f)
qed

text \<open>
  C7. \<open>override:feed\<close> and \<open>override:spindle\<close> emit 1 for a delta of 0 and
  otherwise the clamp of \<open>(cur * 100 + delta) / 100\<close> to the interval from 0.05 to
  2.0, whatever the current override is; so \<open>override:feed(0)\<close> emits \<open>{mfo:1}\<close>.
\<close>

theorem override_arithmetic:
  "override_feed delta cur = (if delta = 0 then 1 else clamp ((cur * 100 + delta) / 100) 0.05 2.0)
   \<and> override_spindle delta cur = (if delta = 0 then 1 else clamp ((cur * 100 + delta) / 100) 0.05 2.0)
   \<and> command_override_feed e delta s =
       command_gcode e [''{mfo:'' @ numberToString e (override_feed delta (runner_mfo s)) @ ''}''] s
   \<and> command_override_spindle e delta s =
       command_gcode e [''{sso:'' @ numberToString e (override_spindle delta (runner_sso s)) @ ''}''] s
   \<and> command_override_feed e 0 s = command_gcode e [''{mfo:'' @ numberToString e 1 @ ''}''] s"
  by (simp add: override_feed_def override_spindle_def clamp_def
        command_override_feed_def command_override_spindle_def)

theorem override_arithmetic_witness:
  "override_feed 10 1 = 1.1 \<and> override_feed 150 1 = 2 \<and> override_feed (- 100) 1 = 0.05
   \<and> override_spindle (- 10) 1 = 0.9 \<and> override_feed 0 1.7 = 1
   \<and> written (command_override_feed scenario_env 0 open_state) =
       [(WRITE_SOURCE_FEEDER, ''{mfo:1}'' @ [CHR 0x0A])]"
proof -
  have v1: "override_feed 10 1 = 1.1"
    using override_arithmetic [of 10 1 scenario_env open_state] by (simp add: clamp_def)
  have v2: "override_feed 150 1 = 2"
    using override_arithmetic [of 150 1 scenario_env open_state] by (simp add: clamp_def)
  have v3: "override_feed (- 100) 1 = 0.05"
    using override_arithmetic [of "- 100" 1 scenario_env open_state] by (simp add: clamp_def)
  have v4: "override_spindle (- 10) 1 = 0.9"
    using override_arithmetic [of "- 10" 1 scenario_env open_state] by (simp add: clamp_def)
  have v5: "override_feed 0 1.7 = 1"
    using override_arithmetic [of 0 "1.7" scenario_env open_state] by simp
  have reset: "command_override_feed scenario_env 0 open_state =
      command_gcode scenario_env [''{mfo:'' @ numberToString scenario_env 1 @ ''}''] open_state"
    using override_arithmetic [of 0 "1.7" scenario_env open_state] by blast
  have fed: "written (command_gcode scenario_env [''{mfo:'' @ numberToString scenario_env 1 @ ''}''] open_state) =
      [(WRITE_SOURCE_FEEDER, ''{mfo:1}'' @ [CHR 0x0A])]"
    by code_simp
  show ?thesis
    unfolding reset by (intro conjI v1 v2 v3 v4 v5 fed)
qed

text \<open>
  C8. An \<open>r\<close> frame that carries one of the probed fields \<open>spe\<close>, \<open>spd\<close>,
  \<open>spc\<close>, \<open>sps\<close>, \<open>com\<close>, \<open>cof\<close> with the value null clears the bit of
  that field in the status report mask, and no event sets a cleared bit again. After
  any sequence of events the status report command that \<open>initController\<close> sends
  (the first \<open>send\<close> behind its seventh wait) is the relaxed JSON object
  \<open>{sr:{...}}\<close> with \<open>key:t\<close> for exactly the keys whose bit is set, in the order
  of the mask.
\<close>

theorem capability_probe:
  "(is_null r k \<and> k \<in> set probe_fields \<longrightarrow> map_of (sr (on_r e r s)) k = Some False)
   \<and> (map_of (sr s) k = Some False \<longrightarrow> map_of (sr (step e ev s)) k = Some False)
   \<and> status_report_fields (run e evs initial) =
       ''{sr:{''
       @ join_commas (map (\<lambda>k. k @ '':t'') (map fst (filter snd (sr (run e evs initial)))))
       @ ''}}''
   \<and> initController e 7 s =
       send e ''{sr:n}'' (send e ''{qr:n}'' (send e ''{pwr:n}'' (send e ''{mt:n}''
         (send e ''{sys:n}'' (send e (status_report_fields s) s)))))"
proof -
  have keys: "map fst (sr (run e evs initial)) = sr_fields"
    by (rule keys_run) (rule keys_initial)
  then have "fst ` set (sr (run e evs initial)) \<subseteq> set sr_fields"
    by (metis set_map subset_refl)
  then have "status_report_fields (run e evs initial) = mask_command (sr (run e evs initial))"
    by (simp add: status_report_fields_def relaxed_mask)
  then show ?thesis
    by (simp add: mask_command_def sr_on_r null_probed cleared_step initController_def)
qed


theorem capability_probe_witness:
  "is_null r_spe_null ''spe'' \<and> ''spe'' \<in> set probe_fields
   \<and> map_of (sr (on_r scenario_env r_spe_null (run scenario_env opened_events initial))) ''spe''
       = Some False
   \<and> map_of (sr probed_state) ''spe'' = Some False
   \<and> map_of (sr (step scenario_env (FRAME_R (r_n 1)) probed_state)) ''spe'' = Some False
   \<and> status_report_fields probed_state =
       ''{sr:{stat:t,line:t,vel:t,feed:t,unit:t,coor:t,momo:t,plan:t,path:t,dist:t,admo:t,frmo:t,tool:t,posx:t,posy:t,posz:t,posa:t,posb:t,posc:t,mpox:t,mpoy:t,mpoz:t,mpoa:t,mpob:t,mpoc:t,spd:t,spc:t,sps:t,com:t,cof:t}}''
   \<and> written (initController scenario_env 7 probed_state) =
       [(WRITE_SOURCE_FEEDER, ''{sr:{stat:t,line:t,vel:t,feed:t,unit:t,coor:t,momo:t,plan:t,path:t,dist:t,admo:t,frmo:t,tool:t,posx:t,posy:t,posz:t,posa:t,posb:t,posc:t,mpox:t,mpoy:t,mpoz:t,mpoa:t,mpob:t,mpoc:t,spd:t,spc:t,sps:t,com:t,cof:t}}'' @ [CHR 0x0A])]"
proof -
  have h: "is_null r_spe_null ''spe''" "''spe'' \<in> set probe_fields"
    by (simp_all add: is_null_def r_spe_null_def probe_fields_def)
  have m: "sr probed_state =
      [(''stat'', True), (''line'', True), (''vel'', True), (''feed'', True), (''unit'', True), (''coor'', True), (''momo'', True), (''plan'', True), (''path'', True), (''dist'', True), (''admo'', True), (''frmo'', True), (''tool'', True), (''posx'', True), (''posy'', True), (''posz'', True), (''posa'', True), (''posb'', True), (''posc'', True), (''mpox'', True), (''mpoy'', True), (''mpoz'', True), (''mpoa'', True), (''mpob'', True), (''mpoc'', True), (''spe'', False), (''spd'', True), (''spc'', True), (''sps'', True), (''com'', True), (''cof'', True)]"
    by code_simp
  have "status_report_fields probed_state =
      ''{sr:{'' @ join_commas (map (\<lambda>k. k @ '':t'') (map fst (filter snd (sr probed_state)))) @ ''}}''"
    unfolding probed_state_def
    using capability_probe [of r_spe_null "''spe''" scenario_env initial "FRAME_SR" probed_events]
    by blast
  then have c: "status_report_fields probed_state =
       ''{sr:{stat:t,line:t,vel:t,feed:t,unit:t,coor:t,momo:t,plan:t,path:t,dist:t,admo:t,frmo:t,tool:t,posx:t,posy:t,posz:t,posa:t,posb:t,posc:t,mpox:t,mpoy:t,mpoz:t,mpoa:t,mpob:t,mpoc:t,spd:t,spc:t,sps:t,com:t,cof:t}}''"
    by (simp add: m)
  have w: "written (initController scenario_env 7 probed_state) =
       [(WRITE_SOURCE_FEEDER, ''{sr:{stat:t,line:t,vel:t,feed:t,unit:t,coor:t,momo:t,plan:t,path:t,dist:t,admo:t,frmo:t,tool:t,posx:t,posy:t,posz:t,posa:t,posb:t,posc:t,mpox:t,mpoy:t,mpoz:t,mpoa:t,mpob:t,mpoc:t,spd:t,spc:t,sps:t,com:t,cof:t}}'' @ [CHR 0x0A])]"
    by code_simp
  have n: "map_of (sr (on_r scenario_env r_spe_null (run scenario_env opened_events initial))) ''spe''
       = Some False"
    using capability_probe [of r_spe_null "''spe''" scenario_env
        "run scenario_env opened_events initial"] h by blast
  have p: "map_of (sr probed_state) ''spe'' = Some False"
    by (simp add: m)
  have k: "map_of (sr (step scenario_env (FRAME_R (r_n 1)) probed_state)) ''spe'' = Some False"
    using capability_probe [of r_spe_null "''spe''" scenario_env probed_state
        "FRAME_R (r_n 1)"] p by blast
  show ?thesis
    using h c w n p k by simp
qed

text \<open>
  C9. For a line emitted by the Sender's data event the controller writes nothing when
  the connection is closed, when the workflow is idle, or when the line holds nothing
  but white space. Otherwise it writes one chunk: \<open>N\<close> and the decimal count of
  lines sent, then the line without its white space and without a leading \<open>N\<close> and
  the digits behind it, then a line feed.
\<close>

theorem sender_data_written:
  "written (sender_on_data line s) =
     (if \<not> isOpen s \<or> workflow s = WORKFLOW_STATE_IDLE \<or> (\<forall>c \<in> set line. isSpace c)
      then written s
      else written s @
        [(WRITE_SOURCE_SENDER,
          ''N'' @ string_of_nat (s_sent s)
            @ (let l = filter (\<lambda>c. \<not> isSpace c) line
               in if hd l = CHR ''N'' then dropWhile isDigit (tl l) else l)
            @ [CHR 0x0A])])"
  by (auto simp add: sender_on_data_def log_call_def connection_write_def remove_blanks_def
        strip_line_number_def Let_def filter_empty_conv split: list.splits)

theorem sender_data_written_witness:
  "written (sender_on_data ''N10 G1 X5 '' sending_state) =
     [(WRITE_SOURCE_SENDER, ''N17G1X5'' @ [CHR 0x0A])]
   \<and> written (sender_on_data ''G1 X5'' sending_state) =
     [(WRITE_SOURCE_SENDER, ''N17G1X5'' @ [CHR 0x0A])]
   \<and> written (sender_on_data ''  '' sending_state) = []
   \<and> written (sender_on_data ''G1 X5'' (sending_state\<lparr>isOpen := False\<rparr>)) = []
   \<and> written (sender_on_data ''G1 X5'' (sending_state\<lparr>workflow := WORKFLOW_STATE_IDLE\<rparr>)) = []"
  using sender_data_written [of "''N10 G1 X5 ''" sending_state]
    sender_data_written [of "''G1 X5''" sending_state]
    sender_data_written [of "''  ''" sending_state]
    sender_data_written [of "''G1 X5''" "sending_state\<lparr>isOpen := False\<rparr>"]
    sender_data_written [of "''G1 X5''" "sending_state\<lparr>workflow := WORKFLOW_STATE_IDLE\<rparr>"]
  by (simp add: sending_state_def initial_def isSpace_def isDigit_def string_of_nat.simps
        digit_char_def)

text \<open>
  C10. An \<open>f\<close> frame handled while the workflow is idle calls \<open>feeder.next()\<close>
  once, also when its status code is zero or missing, and broadcasts the structured
  error exactly when the status code is not zero.
\<close>

theorem footer_idle:
  assumes "workflow s = WORKFLOW_STATE_IDLE"
  shows "feeder_next_calls (on_f e f s) = feeder_next_calls s + 1
         \<and> error_broadcasts (on_f e f s) =
             (if 1 < length f \<and> f ! 1 \<noteq> 0
              then error_broadcasts s
                   @ [Emit ''connection:read'' (ErrPayload (f ! 1) (STATUS_CODES e (f ! 1)))]
              else error_broadcasts s)"
  using assms by (simp add: on_f_def Let_def error_broadcasts_emit)

theorem footer_idle_witness:
  "workflow open_state = WORKFLOW_STATE_IDLE
   \<and> feeder_next_calls (on_f scenario_env [1, 0, 6] open_state) = 1
   \<and> error_broadcasts (on_f scenario_env [1, 0, 6] open_state) = []
   \<and> feeder_next_calls (on_f scenario_env [1] open_state) = 1
   \<and> error_broadcasts (on_f scenario_env [1] open_state) = []
   \<and> feeder_next_calls (on_f scenario_env [1, 108, 6] open_state) = 1
   \<and> error_broadcasts (on_f scenario_env [1, 108, 6] open_state) =
       [Emit ''connection:read'' (ErrPayload 108 None)]"
  using footer_idle [of open_state scenario_env "[1, 0, 6]"]
    footer_idle [of open_state scenario_env "[1]"]
    footer_idle [of open_state scenario_env "[1, 108, 6]"]
  by (simp add: open_state_def initial_def scenario_env_def feeder_next_calls_def error_broadcasts_def)

end
